theory Spec2Isabelle
  imports Complex_Main
begin

section \<open>Smart Waste Route Planner: client and driver portals\<close>

text \<open>
  The development embeds the two React components of the repository,
  \<^verbatim>\<open>ClientPortal\<close> (src/components/Client.tsx) and \<^verbatim>\<open>DriverPortal\<close>
  (src/components/Driver.tsx), as functions on explicit component states. Each
  \<^verbatim>\<open>useState\<close> cell is a record field, each handler is a function from the state at the
  render the handler closes over to the state after its \<^verbatim>\<open>set...\<close> calls, and
  \<^verbatim>\<open>localStorage\<close> is an explicit store passed through.

  A JavaScript number is an IEEE double: a finite value, an infinity or \<^verbatim>\<open>NaN\<close>. The
  arithmetic the components do on numbers (\<^verbatim>\<open>+\<close>, \<^verbatim>\<open>-\<close>, \<^verbatim>\<open>/\<close>, comparisons,
  \<^verbatim>\<open>Math.max\<close>, \<^verbatim>\<open>Math.round\<close>, \<^verbatim>\<open>toFixed\<close>) is modelled with the rounding of doubles
  (to nearest, ties to even, 53 bits, with subnormals and overflow); the sign of zero is
  not modelled, no text the components produce depends on it. Builtins of the platform
  that the components call but do not define (\<^verbatim>\<open>parseFloat\<close>, \<^verbatim>\<open>JSON.parse\<close>,
  \<^verbatim>\<open>JSON.stringify\<close>, and the exponent notation of \<^verbatim>\<open>Number.prototype.toString\<close>) are
  parameters, collected in a record. Rendering is modelled only as far as it can throw;
  map panning and the timers that hide a notification are left out.
\<close>

subsection \<open>Numbers\<close>

datatype number = Finite real | PosInfinity | NegInfinity | NaN

text \<open>
  Rounding a real number to a double. \<open>expo x\<close> is the binary exponent of \<open>x\<close>, found by
  search from the smallest one: the first \<open>e\<close> from \<open>-1022\<close> on with \<open>\<bar>x\<bar> < 2^(e+1)\<close> (so
  \<open>-1022\<close> for zero and the subnormal range). Doubles with that exponent are the multiples
  of \<open>2^(e-52)\<close>; \<open>rne\<close> rounds to the nearest integer, a tie going to the even one. A
  result of magnitude \<open>2^1024\<close> or more is an infinity.
\<close>

definition pow2 :: "int \<Rightarrow> real" where
  "pow2 e = 2 powi e"

fun find_expo :: "nat \<Rightarrow> int \<Rightarrow> real \<Rightarrow> int" where
  "find_expo 0 e a = e"
| "find_expo (Suc k) e a = (if a < pow2 (e + 1) then e else find_expo k (e + 1) a)"

definition expo :: "real \<Rightarrow> int" where
  "expo x = find_expo 2046 (- 1022) \<bar>x\<bar>"

definition rne :: "real \<Rightarrow> int" where
  "rne y =
     (let f = \<lfloor>y\<rfloor> in
      if y - of_int f < 1 / 2 then f
      else if 1 / 2 < y - of_int f then f + 1
      else if even f then f else f + 1)"

definition round_double :: "real \<Rightarrow> number" where
  "round_double x =
     (let q = pow2 (expo x - 52); r = of_int (rne (x / q)) * q
      in if pow2 1024 \<le> \<bar>r\<bar> then (if x < 0 then NegInfinity else PosInfinity)
         else Finite r)"

text \<open>The operators \<^verbatim>\<open>+\<close>, unary and binary \<^verbatim>\<open>-\<close>, and \<^verbatim>\<open>/\<close> by a positive constant.\<close>

fun num_add :: "number \<Rightarrow> number \<Rightarrow> number" where
  "num_add (Finite x) (Finite y) = round_double (x + y)"
| "num_add NaN b = NaN"
| "num_add a NaN = NaN"
| "num_add PosInfinity NegInfinity = NaN"
| "num_add NegInfinity PosInfinity = NaN"
| "num_add PosInfinity b = PosInfinity"
| "num_add a PosInfinity = PosInfinity"
| "num_add NegInfinity b = NegInfinity"
| "num_add a NegInfinity = NegInfinity"

fun num_neg :: "number \<Rightarrow> number" where
  "num_neg (Finite x) = Finite (- x)"
| "num_neg PosInfinity = NegInfinity"
| "num_neg NegInfinity = PosInfinity"
| "num_neg NaN = NaN"

definition num_sub :: "number \<Rightarrow> number \<Rightarrow> number" where
  "num_sub a b = num_add a (num_neg b)"

fun num_div_by :: "number \<Rightarrow> real \<Rightarrow> number" where
  "num_div_by (Finite x) c = round_double (x / c)"
| "num_div_by a c = a"

text \<open>
  The comparisons \<^verbatim>\<open>a < b\<close>, \<^verbatim>\<open>a > b\<close> and \<^verbatim>\<open>a <= b\<close> (false when an operand is
  \<^verbatim>\<open>NaN\<close>), \<^verbatim>\<open>isNaN\<close>, and \<^verbatim>\<open>Math.max\<close> of two numbers.
\<close>

fun num_less :: "number \<Rightarrow> number \<Rightarrow> bool" where
  "num_less (Finite x) (Finite y) = (x < y)"
| "num_less NaN b = False"
| "num_less a NaN = False"
| "num_less a NegInfinity = False"
| "num_less NegInfinity b = True"
| "num_less PosInfinity b = False"
| "num_less a PosInfinity = True"

definition num_gt :: "number \<Rightarrow> number \<Rightarrow> bool" where
  "num_gt a b = num_less b a"

definition isNaN :: "number \<Rightarrow> bool" where
  "isNaN a = (a = NaN)"

definition num_le :: "number \<Rightarrow> number \<Rightarrow> bool" where
  "num_le a b = (\<not> isNaN a \<and> \<not> isNaN b \<and> \<not> num_less b a)"

definition Math_max :: "number \<Rightarrow> number \<Rightarrow> number" where
  "Math_max a b = (if isNaN a \<or> isNaN b then NaN else if num_less a b then b else a)"

text \<open>
  \<^verbatim>\<open>Math.round(x)\<close>: the nearest integer, a tie going towards plus infinity; it is computed
  on the value of the double and is a double again.
\<close>

fun Math_round :: "number \<Rightarrow> number" where
  "Math_round (Finite x) = Finite (of_int \<lfloor>x + 1 / 2\<rfloor>)"
| "Math_round a = a"

subsection \<open>Data model\<close>

text \<open>
  \<^verbatim>\<open>interface StoredBinData { id; location; amount; lat; lng }\<close> (driver) and
  \<^verbatim>\<open>interface BinData\<close> (client), which has the same fields followed by \<^verbatim>\<open>createdAt\<close>.
  The field \<^verbatim>\<open>id\<close> is named \<open>bin_id\<close> (\<open>id\<close> is the identity function of HOL). The
  components compute with \<open>amount\<close> only; the coordinates are passed on as they are.
\<close>

record StoredBinData =
  bin_id :: string
  location :: string
  amount :: number
  lat :: real
  lng :: real

record BinData = StoredBinData +
  createdAt :: string

datatype NotificationType = success | error | info

record NotificationState =
  message :: string
  type :: NotificationType

record LatLng =
  lat_of :: real
  lng_of :: real

text \<open>
  What \<^verbatim>\<open>JSON.parse\<close> does with the stored text: it throws a \<^verbatim>\<open>SyntaxError\<close>; or it
  returns a value that is not an array (\<^verbatim>\<open>null\<close>, a number, a string, a boolean, an
  object); or it returns an array, whose elements are taken to be bins, as the components
  annotate them.
\<close>

datatype parsed = ParseError | NotAnArray | BinArray "BinData list"

text \<open>The platform: what the components call and do not define.\<close>

record platform =
  parseFloat :: "string \<Rightarrow> number"
  JSON_parse :: "string \<Rightarrow> parsed"
  JSON_stringify :: "BinData list \<Rightarrow> string"
  exponent_notation :: "real \<Rightarrow> string"

subsection \<open>Number formatting\<close>

text \<open>Decimal digits of a natural number, most significant first.\<close>

definition digit_char :: "nat \<Rightarrow> char" where
  "digit_char d = ''0123456789'' ! d"

fun digits :: "nat \<Rightarrow> string" where
  "digits n = (if n < 10 then [digit_char n] else digits (n div 10) @ [digit_char (n mod 10)])"

declare digits.simps [simp del]

text \<open>
  \<^verbatim>\<open>x.toFixed(f)\<close>, after the algorithm of the language standard, which works on the
  exact value of the double. A number that is not finite gives its name. From \<open>10^21\<close> on
  the result is that of \<^verbatim>\<open>toString\<close>. Otherwise, for \<open>x < 0\<close> the sign is written and
  \<open>x\<close> negated; \<open>n\<close> is the integer with \<open>n / 10^f\<close> nearest to \<open>x\<close> (the larger one at a
  tie); its digits are padded with zeros on the left to \<open>f + 1\<close> characters, and a point is
  put before the last \<open>f\<close> of them.
\<close>

definition scaled :: "nat \<Rightarrow> real \<Rightarrow> nat" where
  "scaled f x = nat \<lfloor>x * 10 ^ f + 1 / 2\<rfloor>"

definition pad_zeros :: "nat \<Rightarrow> string \<Rightarrow> string" where
  "pad_zeros k s = replicate (k - length s) CHR ''0'' @ s"

definition fixed :: "nat \<Rightarrow> nat \<Rightarrow> string" where
  "fixed f n =
     (let m = pad_zeros (f + 1) (digits n); k = length m - f
      in if f = 0 then m else take k m @ ''.'' @ drop k m)"

fun toFixed :: "platform \<Rightarrow> nat \<Rightarrow> number \<Rightarrow> string" where
  "toFixed js f (Finite x) =
     (if \<bar>x\<bar> \<ge> 10 ^ 21 then exponent_notation js x
      else if x < 0 then ''-'' @ fixed f (scaled f (- x))
      else fixed f (scaled f x))"
| "toFixed js f PosInfinity = ''Infinity''"
| "toFixed js f NegInfinity = ''-Infinity''"
| "toFixed js f NaN = ''NaN''"

text \<open>A number with an integral value in a template literal: \<^verbatim>\<open>`${n}`\<close>.\<close>

definition int_toString :: "platform \<Rightarrow> int \<Rightarrow> string" where
  "int_toString js n =
     (if \<bar>n\<bar> \<ge> 10 ^ 21 then exponent_notation js (of_int n)
      else if n < 0 then ''-'' @ digits (nat (- n))
      else digits (nat n))"

fun integral_text :: "platform \<Rightarrow> number \<Rightarrow> string" where
  "integral_text js (Finite x) = int_toString js \<lfloor>x\<rfloor>"
| "integral_text js PosInfinity = ''Infinity''"
| "integral_text js NegInfinity = ''-Infinity''"
| "integral_text js NaN = ''NaN''"

subsection \<open>The persistent store\<close>

text \<open>
  \<^verbatim>\<open>localStorage\<close>, restricted to the one key the components use, \<^verbatim>\<open>"fullBins"\<close>.
  \<^verbatim>\<open>setItem\<close> throws a \<^verbatim>\<open>QuotaExceededError\<close> when the value does not fit; the room
  left for the key is the field \<open>quota\<close>. \<^verbatim>\<open>getItem\<close> returns \<^verbatim>\<open>null\<close> (\<open>None\<close>) for a
  missing key, and \<^verbatim>\<open>removeItem\<close> does not fail.
\<close>

record Storage =
  fullBins :: "string option"
  quota :: nat

datatype js_error = QuotaExceededError | SyntaxError | TypeError

definition getItem :: "Storage \<Rightarrow> string option" where
  "getItem sto = fullBins sto"

definition setItem :: "Storage \<Rightarrow> string \<Rightarrow> js_error + Storage" where
  "setItem sto v =
     (if length v > quota sto then Inl QuotaExceededError
      else Inr (sto\<lparr>fullBins := Some v\<rparr>))"

definition removeItem :: "Storage \<Rightarrow> Storage" where
  "removeItem sto = sto\<lparr>fullBins := None\<rparr>"

subsection \<open>ClientPortal\<close>

text \<open>
  The state cells of \<^verbatim>\<open>ClientPortal\<close>, prefixed with \<open>c_\<close>: \<^verbatim>\<open>amount\<close>, \<^verbatim>\<open>bins\<close>,
  \<^verbatim>\<open>latLng\<close>, \<^verbatim>\<open>location\<close>, \<^verbatim>\<open>notification\<close> and \<^verbatim>\<open>isSubmitting\<close>.
\<close>

record client_state =
  c_amount :: string
  c_bins :: "BinData list"
  c_latLng :: "LatLng option"
  c_location :: string
  c_notification :: "NotificationState option"
  c_isSubmitting :: bool

definition MAX_TRUCK_CAPACITY :: real where
  "MAX_TRUCK_CAPACITY = 100"

text \<open>The initial values of the \<^verbatim>\<open>useState\<close> calls.\<close>

definition client_init :: client_state where
  "client_init = \<lparr>c_amount = '''', c_bins = [], c_latLng = None, c_location = '''',
     c_notification = None, c_isSubmitting = False\<rparr>"

text \<open>
  \<^verbatim>\<open>const totalAmount = bins.reduce((sum, bin) => sum + bin.amount, 0)\<close> and
  \<^verbatim>\<open>const remainingCapacity = Math.max(0, MAX_TRUCK_CAPACITY - totalAmount)\<close>.
\<close>

definition totalAmount :: "BinData list \<Rightarrow> number" where
  "totalAmount bs = foldl (\<lambda>sum bin. num_add sum (amount bin)) (Finite 0) bs"

definition remainingCapacity :: "BinData list \<Rightarrow> number" where
  "remainingCapacity bs =
     Math_max (Finite 0) (num_sub (Finite MAX_TRUCK_CAPACITY) (totalAmount bs))"

text \<open>
  The effect that loads the bins when the component mounts, together with the render that
  follows it. A missing (or empty) stored value leaves the state as it is, an array is
  stored in \<open>bins\<close>, and a parse error is caught and shown as an error notification. A
  parsed value that is not an array is stored in \<open>bins\<close> as well; the render that follows
  calls \<^verbatim>\<open>bins.reduce\<close> and throws a \<^verbatim>\<open>TypeError\<close>, which nothing catches: the result
  is then the exception, not a state.
\<close>

definition client_load :: "platform \<Rightarrow> Storage \<Rightarrow> client_state \<Rightarrow> js_error + client_state" where
  "client_load js sto st =
     (case getItem sto of
        None \<Rightarrow> Inr st
      | Some storedBins \<Rightarrow>
          if storedBins = [] then Inr st
          else (case JSON_parse js storedBins of
                  BinArray parsedBins \<Rightarrow> Inr (st\<lparr>c_bins := parsedBins\<rparr>)
                | NotAnArray \<Rightarrow> Inl TypeError
                | ParseError \<Rightarrow> Inr (st\<lparr>c_notification :=
                    Some \<lparr>message = ''Could not load previously submitted bins.'', type = error\<rparr>\<rparr>)))"

text \<open>The placeholder \<^verbatim>\<open>`Pinned: ${latLng.lat.toFixed(4)}, ${latLng.lng.toFixed(4)}`\<close>.\<close>

definition pinned :: "platform \<Rightarrow> LatLng \<Rightarrow> string" where
  "pinned js latLng =
     ''Pinned: '' @ toFixed js 4 (Finite (lat_of latLng)) @ '', ''
       @ toFixed js 4 (Finite (lng_of latLng))"

text \<open>The object \<^verbatim>\<open>newBin\<close> that \<^verbatim>\<open>handleSubmit\<close> builds once the checks have passed.\<close>

definition newBin :: "platform \<Rightarrow> string \<Rightarrow> string \<Rightarrow> string \<Rightarrow> LatLng \<Rightarrow> number \<Rightarrow> BinData" where
  "newBin js t_id t_created loc latLng amountNumber =
     \<lparr>bin_id = t_id,
      location = (if loc = [] then pinned js latLng else loc),
      amount = amountNumber, lat = lat_of latLng, lng = lng_of latLng,
      createdAt = t_created\<rparr>"

text \<open>
  \<^verbatim>\<open>handleSubmit\<close>. The two arguments \<open>t_id\<close> and \<open>t_created\<close> are the results of the two
  calls \<^verbatim>\<open>new Date().toISOString()\<close>, in the order of the source. The handler has no
  \<^verbatim>\<open>await\<close>, so it runs to its end in one step; of the values given to one state cell
  the last one stays (\<^verbatim>\<open>setIsSubmitting(true)\<close> and \<^verbatim>\<open>setNotification(null)\<close> at the
  start are overwritten on every path). A \<^verbatim>\<open>setItem\<close> that throws is caught: the bins
  set in memory before the \<^verbatim>\<open>try\<close> stay, and the form is reset after the \<^verbatim>\<open>catch\<close>.
  The first check, \<^verbatim>\<open>!amount || !latLng\<close>, is written as two branches with the same result.
\<close>

definition handleSubmit ::
  "platform \<Rightarrow> string \<Rightarrow> string \<Rightarrow> Storage \<times> client_state \<Rightarrow> Storage \<times> client_state" where
  "handleSubmit js t_id t_created = (\<lambda>(sto, st).
     let amountNumber = parseFloat js (c_amount st) in
     case c_latLng st of
       None \<Rightarrow> (sto, st\<lparr>c_notification :=
                  Some \<lparr>message = ''Please pin a location and enter the waste amount.'', type = error\<rparr>,
                  c_isSubmitting := False\<rparr>)
     | Some latLng \<Rightarrow>
         if c_amount st = [] then
           (sto, st\<lparr>c_notification :=
              Some \<lparr>message = ''Please pin a location and enter the waste amount.'', type = error\<rparr>,
              c_isSubmitting := False\<rparr>)
         else if isNaN amountNumber \<or> num_le amountNumber (Finite 0) then
           (sto, st\<lparr>c_notification :=
              Some \<lparr>message = ''Please enter a valid positive waste amount.'', type = error\<rparr>,
              c_isSubmitting := False\<rparr>)
         else if num_gt amountNumber (remainingCapacity (c_bins st)) then
           (sto, st\<lparr>c_notification :=
              Some \<lparr>message = ''Amount exceeds remaining truck capacity of ''
                        @ toFixed js 2 (remainingCapacity (c_bins st)) @ '' kg.'', type = error\<rparr>,
              c_isSubmitting := False\<rparr>)
         else
           let updatedBins = c_bins st @ [newBin js t_id t_created (c_location st) latLng amountNumber];
               st1 = st\<lparr>c_bins := updatedBins\<rparr>;
               (sto', st2) =
                 (case setItem sto (JSON_stringify js updatedBins) of
                    Inr sto' \<Rightarrow> (sto', st1\<lparr>c_notification :=
                      Some \<lparr>message = ''Bin details submitted successfully!'', type = success\<rparr>\<rparr>)
                  | Inl _ \<Rightarrow> (sto, st1\<lparr>c_notification :=
                      Some \<lparr>message = ''Failed to save bin. Data might be lost on refresh.'',
                            type = error\<rparr>\<rparr>))
           in (sto', st2\<lparr>c_location := '''', c_amount := '''', c_latLng := None,
                            c_isSubmitting := False\<rparr>))"

text \<open>\<^verbatim>\<open>handleClear\<close>.\<close>

definition handleClear :: "Storage \<times> client_state \<Rightarrow> Storage \<times> client_state" where
  "handleClear = (\<lambda>(sto, st).
     (removeItem sto,
      st\<lparr>c_bins := [],
         c_notification := Some \<lparr>message = ''All submitted bin data has been cleared.'', type = info\<rparr>,
         c_amount := '''', c_latLng := None, c_location := ''''\<rparr>))"

text \<open>
  A bin submission as the form holds it when it is submitted: the text of the amount field
  (set by the \<^verbatim>\<open>onChange\<close> of the input), the pin and the address text (set by
  \<^verbatim>\<open>handleMapClick\<close>), and the two clock readings of the handler. \<open>submit\<close> puts the form
  fields into the state and runs \<^verbatim>\<open>handleSubmit\<close>; \<open>submit_all\<close> processes a sequence.
\<close>

record submission =
  s_amount :: string
  s_latLng :: "LatLng option"
  s_location :: string
  s_t_id :: string
  s_t_created :: string

definition submit :: "platform \<Rightarrow> submission \<Rightarrow> Storage \<times> client_state \<Rightarrow> Storage \<times> client_state" where
  "submit js sub = (\<lambda>(sto, st).
     handleSubmit js (s_t_id sub) (s_t_created sub)
       (sto, st\<lparr>c_amount := s_amount sub, c_latLng := s_latLng sub, c_location := s_location sub\<rparr>))"

definition submit_all ::
  "platform \<Rightarrow> submission list \<Rightarrow> Storage \<times> client_state \<Rightarrow> Storage \<times> client_state" where
  "submit_all js subs w = foldl (\<lambda>w sub. submit js sub w) w subs"

subsection \<open>DriverPortal\<close>

text \<open>The request and the response of the directions service, as far as the component uses them.\<close>

record DirectionsWaypoint =
  wp_location :: LatLng
  stopover :: bool

datatype TravelMode = BICYCLING | DRIVING | TRANSIT | WALKING

record DirectionsRequest =
  origin :: LatLng
  destination :: LatLng
  waypoints :: "DirectionsWaypoint list"
  optimizeWaypoints :: bool
  travelMode :: TravelMode

text \<open>
  A leg carries \<^verbatim>\<open>distance?.value\<close> (metres) and \<^verbatim>\<open>duration?.value\<close> (seconds); \<open>None\<close>
  is a leg without the field.
\<close>

record DirectionsLeg =
  leg_distance :: "number option"
  leg_duration :: "number option"

record DirectionsRoute =
  legs :: "DirectionsLeg list"

record DirectionsResult =
  routes :: "DirectionsRoute list"

datatype DirectionsStatus =
  OK | INVALID_REQUEST | MAX_WAYPOINTS_EXCEEDED | NOT_FOUND | OVER_QUERY_LIMIT
  | REQUEST_DENIED | UNKNOWN_ERROR | ZERO_RESULTS

fun status_text :: "DirectionsStatus \<Rightarrow> string" where
  "status_text OK = ''OK''"
| "status_text INVALID_REQUEST = ''INVALID_REQUEST''"
| "status_text MAX_WAYPOINTS_EXCEEDED = ''MAX_WAYPOINTS_EXCEEDED''"
| "status_text NOT_FOUND = ''NOT_FOUND''"
| "status_text OVER_QUERY_LIMIT = ''OVER_QUERY_LIMIT''"
| "status_text REQUEST_DENIED = ''REQUEST_DENIED''"
| "status_text UNKNOWN_ERROR = ''UNKNOWN_ERROR''"
| "status_text ZERO_RESULTS = ''ZERO_RESULTS''"

record RouteSummary =
  distance :: string
  duration :: string

text \<open>
  The state cells of \<^verbatim>\<open>DriverPortal\<close>, prefixed with \<open>d_\<close>. The model is of the portal
  once the map script has loaded (\<^verbatim>\<open>isLoaded\<close>): before that the component renders a
  loading text only and no button. \<open>d_map\<close> tells whether the map
  instance is there (\<^verbatim>\<open>map\<close> is not \<^verbatim>\<open>null\<close>). \<^verbatim>\<open>driverLocation\<close> has no setter and is
  the constant \<^verbatim>\<open>DEFAULT_CENTER\<close>.
\<close>

record driver_state =
  d_bins :: "BinData list"
  d_map :: bool
  d_directionsResponse :: "DirectionsResult option"
  d_routePlanned :: bool
  d_isLoadingRoute :: bool
  d_routeSummary :: "RouteSummary option"
  d_notification :: "NotificationState option"

definition DEFAULT_CENTER :: LatLng where
  "DEFAULT_CENTER = \<lparr>lat_of = 6.902146919051226, lng_of = 79.86086322142651\<rparr>"

definition driverLocation :: LatLng where
  "driverLocation = DEFAULT_CENTER"

definition driver_init :: driver_state where
  "driver_init = \<lparr>d_bins = [], d_map = False, d_directionsResponse = None,
     d_routePlanned = False, d_isLoadingRoute = False, d_routeSummary = None,
     d_notification = None\<rparr>"

text \<open>The notice of the driver portal when there is no bin.\<close>

definition no_bins_yet :: NotificationState where
  "no_bins_yet = \<lparr>message = ''No bins reported yet. Waiting for submissions.'', type = info\<rparr>"

text \<open>
  The effect that loads the bins when the component mounts, together with the render that
  follows it once the map script has loaded. A parsed value that is not an array is stored
  in \<open>bins\<close> (for \<^verbatim>\<open>null\<close> the test \<^verbatim>\<open>parsedBins.length === 0\<close> then throws into the
  \<^verbatim>\<open>catch\<close>); the render calls \<^verbatim>\<open>bins.length\<close> and \<^verbatim>\<open>bins.map\<close> and throws a
  \<^verbatim>\<open>TypeError\<close>, which nothing catches.
\<close>

definition driver_load :: "platform \<Rightarrow> Storage \<Rightarrow> driver_state \<Rightarrow> js_error + driver_state" where
  "driver_load js sto st =
     (case getItem sto of
        None \<Rightarrow> Inr (st\<lparr>d_notification := Some no_bins_yet\<rparr>)
      | Some storedBins \<Rightarrow>
          if storedBins = [] then Inr (st\<lparr>d_notification := Some no_bins_yet\<rparr>)
          else (case JSON_parse js storedBins of
                  BinArray parsedBins \<Rightarrow>
                    if length parsedBins = 0
                    then Inr (st\<lparr>d_bins := parsedBins, d_notification := Some no_bins_yet\<rparr>)
                    else Inr (st\<lparr>d_bins := parsedBins\<rparr>)
                | NotAnArray \<Rightarrow> Inl TypeError
                | ParseError \<Rightarrow> Inr (st\<lparr>d_notification :=
                    Some \<lparr>message = ''Could not load bin data.'', type = error\<rparr>\<rparr>)))"

text \<open>\<^verbatim>\<open>onMapLoad\<close>.\<close>

definition onMapLoad :: "driver_state \<Rightarrow> driver_state" where
  "onMapLoad st = st\<lparr>d_map := True\<rparr>"

text \<open>
  \<^verbatim>\<open>planRoute\<close>, up to the call of the directions service: the new state and the request
  handed to \<^verbatim>\<open>directionsService.route\<close>, if one is. \<^verbatim>\<open>slice(0, -1)\<close> is all but the last
  element. The waypoint location \<^verbatim>\<open>new google.maps.LatLng(loc.lat, loc.lng)\<close> is modelled
  by the two numbers it is built from.
\<close>

definition slice_0_m1 :: "'a list \<Rightarrow> 'a list" where
  "slice_0_m1 xs = take (length xs - 1) xs"

definition planRoute :: "driver_state \<Rightarrow> driver_state \<times> DirectionsRequest option" where
  "planRoute st =
     (if \<not> d_map st then
        (st\<lparr>d_notification := Some \<lparr>message = ''Map not ready.'', type = error\<rparr>\<rparr>, None)
      else if length (d_bins st) = 0 then
        (st\<lparr>d_notification := Some \<lparr>message = ''No bins to plan route.'', type = info\<rparr>\<rparr>, None)
      else
        let binLocations = map (\<lambda>b. \<lparr>lat_of = lat b, lng_of = lng b\<rparr>) (d_bins st);
            waypoints = map (\<lambda>loc. \<lparr>wp_location = \<lparr>lat_of = lat_of loc, lng_of = lng_of loc\<rparr>,
                                     stopover = True\<rparr>) (slice_0_m1 binLocations)
        in (st\<lparr>d_isLoadingRoute := True, d_directionsResponse := None,
                d_routeSummary := None, d_notification := None\<rparr>,
            Some \<lparr>origin = driverLocation,
                  destination = binLocations ! (length binLocations - 1),
                  waypoints = waypoints,
                  optimizeWaypoints = True,
                  travelMode = DRIVING\<rparr>))"

text \<open>
  The callback given to \<^verbatim>\<open>directionsService.route\<close>, with the result (\<open>None\<close> for
  \<^verbatim>\<open>null\<close>) and the status. \<^verbatim>\<open>leg.distance?.value || 0\<close> is \<open>0\<close> for a missing field,
  for \<open>0\<close> and for \<^verbatim>\<open>NaN\<close>. The totals are added up and divided as doubles.
  \<^verbatim>\<open>result.routes[0].legs\<close> throws a \<^verbatim>\<open>TypeError\<close> when \<open>routes\<close> is empty; the state
  cells set before stay set. The second component is the exception that leaves the callback.
\<close>

definition or_0 :: "number option \<Rightarrow> number" where
  "or_0 v = (case v of None \<Rightarrow> Finite 0 | Some NaN \<Rightarrow> Finite 0 | Some x \<Rightarrow> x)"

text \<open>
  The loop \<^verbatim>\<open>legs.forEach((leg) => { total += leg.field?.value || 0 })\<close>, from
  \<^verbatim>\<open>total = 0\<close>, for one of the two fields.
\<close>

definition leg_total :: "(DirectionsLeg \<Rightarrow> number option) \<Rightarrow> DirectionsLeg list \<Rightarrow> number" where
  "leg_total field ls = foldl (\<lambda>total leg. num_add total (or_0 (field leg))) (Finite 0) ls"

definition directions_callback ::
  "platform \<Rightarrow> DirectionsResult option \<Rightarrow> DirectionsStatus \<Rightarrow> driver_state
     \<Rightarrow> driver_state \<times> js_error option" where
  "directions_callback js result status st =
     (let st1 = st\<lparr>d_isLoadingRoute := False\<rparr> in
      case result of
        Some res \<Rightarrow>
          if status = OK then
            (let st2 = st1\<lparr>d_directionsResponse := Some res, d_routePlanned := True\<rparr> in
             case routes res of
               [] \<Rightarrow> (st2, Some TypeError)
             | route0 # _ \<Rightarrow>
                 let totalDistance = leg_total leg_distance (legs route0);
                     totalDuration = leg_total leg_duration (legs route0)
                 in (st2\<lparr>d_routeSummary := Some
                           \<lparr>distance = toFixed js 2 (num_div_by totalDistance 1000) @ '' km'',
                            duration = integral_text js (Math_round (num_div_by totalDuration 60))
                                         @ '' min''\<rparr>,
                         d_notification := Some
                           \<lparr>message = ''Route planned successfully!'', type = success\<rparr>\<rparr>,
                     None))
          else (st1\<lparr>d_notification := Some
                  \<lparr>message = ''Route planning failed: '' @ status_text status, type = error\<rparr>\<rparr>, None)
      | None \<Rightarrow>
          (st1\<lparr>d_notification := Some
             \<lparr>message = ''Route planning failed: '' @ status_text status, type = error\<rparr>\<rparr>, None))"

text \<open>\<^verbatim>\<open>clearRoute\<close>.\<close>

definition clearRoute :: "driver_state \<Rightarrow> driver_state" where
  "clearRoute st = st\<lparr>d_directionsResponse := None, d_routePlanned := False,
     d_routeSummary := None,
     d_notification := Some \<lparr>message = ''Route cleared.'', type = info\<rparr>\<rparr>"

text \<open>
  The two buttons. ``Plan Route'' has
  \<^verbatim>\<open>disabled={isLoadingRoute || routePlanned || bins.length === 0}\<close>, and a disabled button
  does not call its handler; ``Clear Route'' is rendered only when \<^verbatim>\<open>routePlanned\<close> holds.
\<close>

definition click_planRoute :: "driver_state \<Rightarrow> driver_state \<times> DirectionsRequest option" where
  "click_planRoute st =
     (if d_isLoadingRoute st \<or> d_routePlanned st \<or> length (d_bins st) = 0 then (st, None)
      else planRoute st)"

definition click_clearRoute :: "driver_state \<Rightarrow> driver_state" where
  "click_clearRoute st = (if d_routePlanned st then clearRoute st else st)"

text \<open>
  The status of the plan, read from the two flags the way the label of the button reads
  them: \<^verbatim>\<open>isLoadingRoute ? "Planning..." : routePlanned ? "Route Planned" : "Plan Route"\<close>.
\<close>

datatype PlanStatus = Unplanned | Planning | Planned

definition plan_status :: "driver_state \<Rightarrow> PlanStatus" where
  "plan_status st =
     (if d_isLoadingRoute st then Planning else if d_routePlanned st then Planned else Unplanned)"

subsection \<open>A driver session and the two portals side by side\<close>

text \<open>
  A session of the driver portal: the component state and the requests handed to the
  directions service whose callback has not run yet. The events are the two buttons, the
  map becoming ready, and the service answering the oldest open request with a result and
  a status. An exception leaving the callback does not undo the state cells already set.
\<close>

record driver_session =
  ui :: driver_state
  in_flight :: "DirectionsRequest list"

datatype driver_event =
  ClickPlanRoute | ClickClearRoute | MapLoaded
  | Response "DirectionsResult option" DirectionsStatus

definition driver_step :: "platform \<Rightarrow> driver_event \<Rightarrow> driver_session \<Rightarrow> driver_session" where
  "driver_step js ev s =
     (case ev of
        ClickPlanRoute \<Rightarrow>
          (let (st', req) = click_planRoute (ui s)
           in \<lparr>ui = st', in_flight = in_flight s @ (case req of None \<Rightarrow> [] | Some r \<Rightarrow> [r])\<rparr>)
      | ClickClearRoute \<Rightarrow> s\<lparr>ui := click_clearRoute (ui s)\<rparr>
      | MapLoaded \<Rightarrow> s\<lparr>ui := onMapLoad (ui s)\<rparr>
      | Response result status \<Rightarrow>
          (case in_flight s of
             [] \<Rightarrow> s
           | _ # rest \<Rightarrow>
               \<lparr>ui = fst (directions_callback js result status (ui s)), in_flight = rest\<rparr>))"

definition driver_run :: "platform \<Rightarrow> driver_event list \<Rightarrow> driver_session \<Rightarrow> driver_session" where
  "driver_run js evs s = foldl (\<lambda>s ev. driver_step js ev s) s evs"



text \<open>
  The two portals are separate components on separate pages (\<^verbatim>\<open>/client\<close> and
  \<^verbatim>\<open>/driver\<close> in App.tsx). Open in two windows they share the store and nothing else: a
  handler of the client portal reads and writes the store and the client state.
\<close>

record world =
  w_store :: Storage
  w_client :: client_state
  w_driver :: driver_session

definition client_submit :: "platform \<Rightarrow> submission \<Rightarrow> world \<Rightarrow> world" where
  "client_submit js sub w =
     (let (sto', c') = submit js sub (w_store w, w_client w)
      in w\<lparr>w_store := sto', w_client := c'\<rparr>)"

definition client_clear :: "world \<Rightarrow> world" where
  "client_clear w =
     (let (sto', c') = handleClear (w_store w, w_client w)
      in w\<lparr>w_store := sto', w_client := c'\<rparr>)"

text \<open>
  Everything that can happen while both portals are mounted: a submission or a clear in
  the client portal, or an event of the driver portal.
\<close>

datatype world_event = ClientSubmit submission | ClientClear | DriverEvent driver_event

definition world_step :: "platform \<Rightarrow> world_event \<Rightarrow> world \<Rightarrow> world" where
  "world_step js ev w =
     (case ev of
        ClientSubmit sub \<Rightarrow> client_submit js sub w
      | ClientClear \<Rightarrow> client_clear w
      | DriverEvent e \<Rightarrow> w\<lparr>w_driver := driver_step js e (w_driver w)\<rparr>)"

definition world_run :: "platform \<Rightarrow> world_event list \<Rightarrow> world \<Rightarrow> world" where
  "world_run js evs w = foldl (\<lambda>w ev. world_step js ev w) w evs"

subsection \<open>A platform instance for concrete runs\<close>

text \<open>
  The theorems below hold for every platform. To run the model on concrete inputs, this
  instance reads an unsigned decimal numeral (digits, or digits, a point and digits) as
  \<^verbatim>\<open>parseFloat\<close> does, by rounding its value to a double, and everything else as
  \<^verbatim>\<open>NaN\<close>; it parses the texts \<^verbatim>\<open>[]\<close> and \<^verbatim>\<open>null\<close> only, and serialises a list of
  bins to their ids between brackets.
\<close>

definition digit_val :: "char \<Rightarrow> nat option" where
  "digit_val c = map_of (zip ''0123456789'' [0, 1, 2, 3, 4, 5, 6, 7, 8, 9]) c"

fun parse_nat :: "nat \<Rightarrow> string \<Rightarrow> nat option" where
  "parse_nat acc [] = Some acc"
| "parse_nat acc (c # cs) =
     (case digit_val c of None \<Rightarrow> None | Some d \<Rightarrow> parse_nat (10 * acc + d) cs)"

definition parse_decimal :: "string \<Rightarrow> real option" where
  "parse_decimal s =
     (let ip = takeWhile (\<lambda>c. c \<noteq> CHR ''.'') s; rest = dropWhile (\<lambda>c. c \<noteq> CHR ''.'') s
      in if ip = [] then None
         else case rest of
           [] \<Rightarrow> map_option real (parse_nat 0 ip)
         | _ # fp \<Rightarrow>
             if fp = [] then None
             else (case (parse_nat 0 ip, parse_nat 0 fp) of
                     (Some i, Some f) \<Rightarrow> Some (real i + real f / 10 ^ length fp)
                   | _ \<Rightarrow> None))"

definition demo_platform :: platform where
  "demo_platform =
     \<lparr>parseFloat = (\<lambda>s. case parse_decimal s of None \<Rightarrow> NaN | Some x \<Rightarrow> round_double x),
      JSON_parse = (\<lambda>s. if s = ''[]'' then BinArray [] else if s = ''null'' then NotAnArray
                         else ParseError),
      JSON_stringify = (\<lambda>bs. ''['' @ concat (map bin_id bs) @ '']''),
      exponent_notation = (\<lambda>x. [])\<rparr>"

text \<open>Sample inputs: a pin, a submission with a given amount text and clock reading, stores.\<close>

definition pin0 :: LatLng where
  "pin0 = \<lparr>lat_of = 1, lng_of = 1\<rparr>"

definition sub_of :: "string \<Rightarrow> string \<Rightarrow> submission" where
  "sub_of a t = \<lparr>s_amount = a, s_latLng = Some pin0, s_location = ''Depot Road'',
     s_t_id = t, s_t_created = t\<rparr>"

definition store0 :: Storage where
  "store0 = \<lparr>fullBins = None, quota = 1000\<rparr>"

definition store_full :: Storage where
  "store_full = \<lparr>fullBins = None, quota = 0\<rparr>"



definition form0 :: client_state where
  "form0 = client_init\<lparr>c_amount := ''40'', c_latLng := Some pin0, c_location := ''Depot Road''\<rparr>"

text \<open>A stored bin with a given id, amount and position, and a driver portal that has loaded
  a list of bins and whose map is ready.\<close>

definition bin_at :: "string \<Rightarrow> real \<Rightarrow> real \<Rightarrow> real \<Rightarrow> BinData" where
  "bin_at i a x y =
     \<lparr>bin_id = i, location = ''Pinned'', amount = Finite a, lat = x, lng = y, createdAt = i\<rparr>"

definition driver_ready :: "BinData list \<Rightarrow> driver_state" where
  "driver_ready bs = driver_init\<lparr>d_bins := bs, d_map := True\<rparr>"

text \<open>A leg with its two values, a result with one route, and driver portals that have sent
  a request for a list of bins and that have received an answer for it; a world in which
  the driver has a plan.\<close>

definition leg_of :: "real \<Rightarrow> real \<Rightarrow> DirectionsLeg" where
  "leg_of metres seconds =
     \<lparr>leg_distance = Some (Finite metres), leg_duration = Some (Finite seconds)\<rparr>"

definition result_of :: "DirectionsLeg list \<Rightarrow> DirectionsResult" where
  "result_of ls = \<lparr>routes = [\<lparr>legs = ls\<rparr>]\<rparr>"

definition driver_planning :: "BinData list \<Rightarrow> driver_state" where
  "driver_planning bs = fst (planRoute (driver_ready bs))"


definition driver_planned :: "BinData list \<Rightarrow> driver_state" where
  "driver_planned bs =
     fst (directions_callback demo_platform (Some (result_of [leg_of 5000 600])) OK (driver_planning bs))"

definition world0 :: world where
  "world0 = \<lparr>w_store = store0, w_client = client_init,
     w_driver = \<lparr>ui = driver_planned [bin_at ''A'' 40 1 1], in_flight = []\<rparr>\<rparr>"

text \<open>A submission without a pin, and a client whose stored bin has a negative amount.\<close>

definition sub_no_pin :: submission where
  "sub_no_pin = (sub_of ''150'' ''t5'')\<lparr>s_latLng := None\<rparr>"

definition neg_start :: client_state where
  "neg_start = client_init\<lparr>c_bins := [bin_at ''N'' (- 576460752303423488) 1 1]\<rparr>"

lemma parseFloat_demo:
  "parseFloat demo_platform s = (case parse_decimal s of None \<Rightarrow> NaN | Some x \<Rightarrow> round_double x)"
  by (simp add: demo_platform_def)

section \<open>Properties\<close>

subsection \<open>Rounding to a double\<close>

text \<open>
  Facts about \<open>round_double\<close>: how to evaluate it when the exponent is known, that it keeps
  integers below \<open>2^53\<close> and other representable values, and two bounds near the capacity
  limit: a value between 0 and \<open>100 + 2^-47\<close> rounds to at most 100 (the tie at
  \<open>100 + 2^-47\<close> goes to the even neighbour, which is 100), and a value between 0 and 100
  moves by at most \<open>2^-47\<close>.
\<close>

lemma pow2_pos [simp]: "0 < pow2 e"
  by (simp add: pow2_def)

lemma pow2_nonzero [simp]: "pow2 e \<noteq> 0"
  by (simp add: pow2_def)

lemma pow2_nonneg [simp]: "0 \<le> pow2 e"
  by (simp add: pow2_def)

lemma pow2_not_le_0 [simp]: "\<not> pow2 e \<le> 0"
  using pow2_pos [of e] by (simp only: not_le)

lemma pow2_less_iff [simp]: "pow2 m < pow2 n \<longleftrightarrow> m < n"
proof
  assume l: "pow2 m < pow2 n"
  show "m < n"
  proof (rule ccontr)
    assume "\<not> m < n"
    then have "n \<le> m" by simp
    then have "(2::real) powi n \<le> 2 powi m" by (rule power_int_increasing) simp
    with l show False by (simp add: pow2_def)
  qed
next
  assume "m < n"
  then have "(2::real) powi m < 2 powi n" by (rule power_int_strict_increasing) simp
  then show "pow2 m < pow2 n" by (simp add: pow2_def)
qed

lemma pow2_le_iff [simp]: "pow2 m \<le> pow2 n \<longleftrightarrow> m \<le> n"
  using pow2_less_iff [of n m] by (simp add: not_less [symmetric] del: pow2_less_iff)

lemma pow2_add: "pow2 (a + b) = pow2 a * pow2 b"
  by (simp add: pow2_def power_int_add)

lemma pow2_nat: "pow2 (int k) = 2 ^ k"
  by (simp add: pow2_def)

lemma pow2_neg_nat: "pow2 (- int k) = 1 / 2 ^ k"
  by (simp add: pow2_def power_int_minus_divide)

lemma pow2_diff_nat: "e \<le> c \<Longrightarrow> pow2 (e - c) = 1 / 2 ^ nat (c - e)"
  using pow2_neg_nat [of "nat (c - e)"] by simp

lemma find_expo_lower: "e \<le> find_expo n e a"
proof (induction n arbitrary: e)
  case 0
  then show ?case by simp
next
  case (Suc n)
  from Suc [of "e + 1"] show ?case by simp
qed

lemma find_expo_upper: "find_expo n e a \<le> e + int n"
proof (induction n arbitrary: e)
  case 0
  then show ?case by simp
next
  case (Suc n)
  from Suc [of "e + 1"] show ?case by simp
qed

lemma find_expo_le:
  "a < pow2 (k + 1) \<Longrightarrow> e \<le> k \<Longrightarrow> k < e + int n \<Longrightarrow> find_expo n e a \<le> k"
proof (induction n arbitrary: e)
  case 0
  then show ?case by simp
next
  case (Suc n)
  show ?case
  proof (cases "a < pow2 (e + 1)")
    case True
    with Suc.prems show ?thesis by simp
  next
    case False
    with Suc.prems have "pow2 (e + 1) < pow2 (k + 1)" by linarith
    then have 1: "e + 1 \<le> k" by simp
    from Suc.prems have 2: "k < e + 1 + int n" by simp
    from Suc.IH [OF Suc.prems(1) 1 2] False show ?thesis by simp
  qed
qed

lemma find_expo_eq:
  "pow2 k \<le> a \<Longrightarrow> a < pow2 (k + 1) \<Longrightarrow> e \<le> k \<Longrightarrow> k < e + int n \<Longrightarrow> find_expo n e a = k"
proof (induction n arbitrary: e)
  case 0
  then show ?case by simp
next
  case (Suc n)
  show ?case
  proof (cases "a < pow2 (e + 1)")
    case True
    with Suc.prems have "pow2 k < pow2 (e + 1)" by linarith
    then have "k < e + 1" by simp
    with Suc.prems(3) have "k = e" by linarith
    with True show ?thesis by simp
  next
    case False
    with Suc.prems have "pow2 (e + 1) < pow2 (k + 1)" by linarith
    then have 1: "e + 1 \<le> k" by simp
    from Suc.prems have 2: "k < e + 1 + int n" by simp
    from Suc.IH [OF Suc.prems(1) Suc.prems(2) 1 2] False show ?thesis by simp
  qed
qed

lemma find_expo_bound:
  "a < pow2 (e + int n) \<Longrightarrow> 0 < n \<Longrightarrow> a < pow2 (find_expo n e a + 1)"
proof (induction n arbitrary: e)
  case 0
  then show ?case by simp
next
  case (Suc n)
  show ?case
  proof (cases "a < pow2 (e + 1)")
    case True
    then show ?thesis by simp
  next
    case False
    with Suc.prems have "n \<noteq> 0" by (cases n) auto
    moreover from Suc.prems have "a < pow2 (e + 1 + int n)" by (simp add: algebra_simps)
    ultimately show ?thesis using False Suc.IH [of "e + 1"] by simp
  qed
qed

lemma expo_range: "- 1022 \<le> expo x" "expo x \<le> 1024"
  using find_expo_lower [of "- 1022" 2046 "\<bar>x\<bar>"] find_expo_upper [of 2046 "- 1022" "\<bar>x\<bar>"]
  by (simp_all add: expo_def)

lemma expo_le: "\<bar>x\<bar> < pow2 (k + 1) \<Longrightarrow> - 1022 \<le> k \<Longrightarrow> k \<le> 1023 \<Longrightarrow> expo x \<le> k"
  unfolding expo_def by (rule find_expo_le) simp_all

lemma expo_eq:
  "pow2 k \<le> \<bar>x\<bar> \<Longrightarrow> \<bar>x\<bar> < pow2 (k + 1) \<Longrightarrow> - 1022 \<le> k \<Longrightarrow> k \<le> 1023 \<Longrightarrow> expo x = k"
  unfolding expo_def by (rule find_expo_eq) simp_all

lemma expo_bound: "\<bar>x\<bar> < pow2 1024 \<Longrightarrow> \<bar>x\<bar> < pow2 (expo x + 1)"
  unfolding expo_def by (rule find_expo_bound) simp_all

lemma expo_small: "\<bar>x\<bar> < pow2 (- 1021) \<Longrightarrow> expo x = - 1022"
proof -
  assume "\<bar>x\<bar> < pow2 (- 1021)"
  then have "expo x \<le> - 1022" by (intro expo_le) simp_all
  with expo_range(1) [of x] show ?thesis by simp
qed

lemma rne_near: "\<bar>real_of_int (rne y) - y\<bar> \<le> 1 / 2"
proof -
  have "real_of_int \<lfloor>y\<rfloor> \<le> y" "y < real_of_int \<lfloor>y\<rfloor> + 1" by linarith+
  then show ?thesis unfolding rne_def Let_def by (auto simp: abs_le_iff)
qed

lemma rne_of_int [simp]: "rne (of_int n) = n"
  by (simp add: rne_def)

lemma rne_0 [simp]: "rne 0 = 0"
  using rne_of_int [of 0] by simp

lemma rne_numeral [simp]: "rne (numeral w) = numeral w" "rne (- numeral w) = - numeral w"
  using rne_of_int [of "numeral w"] rne_of_int [of "- numeral w"] by simp_all

lemma rne_nonneg: "0 \<le> y \<Longrightarrow> 0 \<le> rne y"
proof -
  assume "0 \<le> y"
  then have "0 \<le> \<lfloor>y\<rfloor>" by simp
  then show ?thesis unfolding rne_def Let_def by auto
qed

lemma rne_le:
  assumes "y \<le> of_int N + 1 / 2" "even N"
  shows "rne y \<le> N"
proof -
  from assms have "y < of_int (N + 1)" by simp
  then have "\<lfloor>y\<rfloor> < N + 1" by (simp only: floor_less_iff)
  then have f: "\<lfloor>y\<rfloor> \<le> N" by simp
  show ?thesis
  proof (cases "\<lfloor>y\<rfloor> = N")
    case True
    with assms show ?thesis unfolding rne_def Let_def by auto
  next
    case False
    with f have "\<lfloor>y\<rfloor> + 1 \<le> N" by simp
    with f show ?thesis unfolding rne_def Let_def by auto
  qed
qed

lemma round_double_eval:
  assumes "pow2 e \<le> \<bar>x\<bar>" "\<bar>x\<bar> < pow2 (e + 1)" "- 1022 \<le> e" "e \<le> 1023"
  shows "round_double x =
     (if pow2 1024 \<le> \<bar>real_of_int (rne (x / pow2 (e - 52))) * pow2 (e - 52)\<bar>
      then (if x < 0 then NegInfinity else PosInfinity)
      else Finite (real_of_int (rne (x / pow2 (e - 52))) * pow2 (e - 52)))"
  using expo_eq [OF assms] by (simp add: round_double_def Let_def)

lemma round_double_exact:
  assumes "pow2 e \<le> \<bar>x\<bar>" "\<bar>x\<bar> < pow2 (e + 1)" "- 1022 \<le> e" "e \<le> 1023"
    and "x = real_of_int m * pow2 (e - 52)"
  shows "round_double x = Finite x"
proof -
  from assms(5) have "x / pow2 (e - 52) = real_of_int m" by simp
  then have r: "real_of_int (rne (x / pow2 (e - 52))) * pow2 (e - 52) = x"
    using assms(5) by simp
  from assms(4) have "pow2 (e + 1) \<le> pow2 1024" by simp
  with assms(2) have "\<not> pow2 1024 \<le> \<bar>x\<bar>" by linarith
  with r show ?thesis by (simp add: round_double_eval [OF assms(1-4)])
qed

lemma round_double_0 [simp]: "round_double 0 = Finite 0"
proof -
  have "expo 0 = - 1022" by (rule expo_small) simp
  then show ?thesis by (simp add: round_double_def)
qed

lemma round_double_int:
  assumes "\<bar>n\<bar> < 2 ^ 53"
  shows "round_double (real_of_int n) = Finite (real_of_int n)"
proof (cases "n = 0")
  case True
  then show ?thesis by simp
next
  case False
  then have "1 \<le> nat \<bar>n\<bar>" by simp
  from ex_power_ivl1 [OF _ this, of 2] obtain k where k: "2 ^ k \<le> nat \<bar>n\<bar>" "nat \<bar>n\<bar> < 2 ^ (k + 1)"
    by auto
  from k(1) have lo: "(2::int) ^ k \<le> \<bar>n\<bar>" by (simp add: le_nat_iff)
  from k(2) have hi: "\<bar>n\<bar> < (2::int) ^ (k + 1)" by (simp add: nat_less_iff)
  from lo assms have "(2::int) ^ k < 2 ^ 53" by linarith
  then have k53: "k < 53" by (rule power_less_imp_less_exp [rotated]) simp
  have lo': "pow2 (int k) \<le> \<bar>real_of_int n\<bar>"
  proof -
    from lo have "real_of_int (2 ^ k) \<le> real_of_int \<bar>n\<bar>" by (simp only: of_int_le_iff)
    then show ?thesis by (simp add: pow2_nat)
  qed
  have hi': "\<bar>real_of_int n\<bar> < pow2 (int k + 1)"
  proof -
    from hi have "real_of_int \<bar>n\<bar> < real_of_int (2 ^ (k + 1))" by (simp only: of_int_less_iff)
    moreover have "pow2 (int k + 1) = 2 ^ (k + 1)"
      using pow2_nat [of "k + 1"] by (simp add: add.commute)
    ultimately show ?thesis by simp
  qed
  have rep: "real_of_int n = real_of_int (n * 2 ^ (52 - k)) * pow2 (int k - 52)"
  proof -
    from k53 have "pow2 (int k - 52) = 1 / 2 ^ (52 - k)"
      using pow2_diff_nat [of "int k" 52] by (simp add: nat_diff_distrib')
    then show ?thesis by simp
  qed
  show ?thesis
    by (rule round_double_exact [OF lo' hi' _ _ rep]) (use k53 in simp_all)
qed

lemma round_double_numeral [simp]:
  "numeral w < (2::int) ^ 53 \<Longrightarrow> round_double (numeral w) = Finite (numeral w)"
  using round_double_int [of "numeral w"] by simp

lemma round_double_1 [simp]: "round_double 1 = Finite 1"
  using round_double_int [of 1] by simp


lemma round_double_nonneg:
  assumes "0 \<le> x"
  shows "round_double x = PosInfinity \<or> (\<exists>y. round_double x = Finite y \<and> 0 \<le> y)"
proof -
  have "0 \<le> x / pow2 (expo x - 52)" using assms by simp
  then have "0 \<le> rne (x / pow2 (expo x - 52))" by (rule rne_nonneg)
  then have "0 \<le> real_of_int (rne (x / pow2 (expo x - 52))) * pow2 (expo x - 52)" by simp
  with assms show ?thesis by (auto simp: round_double_def Let_def)
qed

lemma round_double_le_100:
  assumes "0 \<le> x" "x \<le> 100 + pow2 (- 47)"
  shows "\<exists>y. round_double x = Finite y \<and> 0 \<le> y \<and> y \<le> 100"
proof -
  define e where "e = expo x"
  define q where "q = pow2 (e - 52)"
  have qpos: "0 < q" by (simp add: q_def)
  have p47: "pow2 (- 47) < 1" using pow2_less_iff [of "- 47" 0] by (simp add: pow2_def del: pow2_less_iff)
  have p7: "pow2 7 = 128" by (simp add: pow2_def)
  from assms p47 have x128: "\<bar>x\<bar> < pow2 (6 + 1)" by (simp add: p7)
  then have e6: "e \<le> 6" unfolding e_def by (rule expo_le) simp_all
  have em: "- 1022 \<le> e" unfolding e_def by (rule expo_range)
  have "pow2 (6 + 1) \<le> pow2 1024" by simp
  with x128 have "\<bar>x\<bar> < pow2 1024" by linarith
  then have xe: "\<bar>x\<bar> < pow2 (e + 1)" unfolding e_def by (rule expo_bound)
  define N :: int where "N = 100 * 2 ^ nat (52 - e)"
  from e6 have q_inv: "q = 1 / 2 ^ nat (52 - e)" unfolding q_def by (intro pow2_diff_nat) simp
  have Nq: "real_of_int N * q = 100" by (simp add: N_def q_inv)
  from e6 have "0 < nat (52 - e)" by simp
  then have evN: "even N" by (simp add: N_def)
  have half: "x \<le> 100 + q / 2"
  proof (cases "e = 6")
    case True
    then have "q / 2 = pow2 (- 47)"
      using pow2_add [of "- 46" "- 1"] by (simp add: q_def pow2_def [of "- 1"])
    with assms show ?thesis by simp
  next
    case False
    with e6 have "e + 1 \<le> 6" by simp
    then have "pow2 (e + 1) \<le> pow2 6" by simp
    also have "pow2 6 = 64" by (simp add: pow2_def)
    finally have "pow2 (e + 1) \<le> 64" .
    with xe have "x < 64" by linarith
    with qpos show ?thesis by (simp add: add_pos_pos less_imp_le order_trans [of x 100])
  qed
  have "x / q \<le> real_of_int N + 1 / 2"
  proof -
    from half qpos have "x / q \<le> (100 + q / 2) / q" by (simp add: divide_right_mono)
    also have "(100 + q / 2) / q = 100 / q + 1 / 2" using qpos by (simp add: add_divide_distrib)
    also have "100 / q = real_of_int N" using Nq qpos by (simp add: field_simps)
    finally show ?thesis .
  qed
  then have rN: "rne (x / q) \<le> N" using evN by (rule rne_le)
  from assms qpos have "0 \<le> rne (x / q)" by (intro rne_nonneg) simp
  then have r0: "0 \<le> real_of_int (rne (x / q)) * q" using qpos by simp
  from rN have "real_of_int (rne (x / q)) \<le> real_of_int N" by simp
  then have "real_of_int (rne (x / q)) * q \<le> real_of_int N * q"
    using qpos by (simp add: mult_right_mono)
  then have r100: "real_of_int (rne (x / q)) * q \<le> 100" by (simp add: Nq)
  have "(128::real) \<le> pow2 1024" using pow2_le_iff [of 7 1024] by (simp add: p7 del: pow2_le_iff)
  with r0 r100 have fin: "\<not> pow2 1024 \<le> \<bar>real_of_int (rne (x / q)) * q\<bar>" by simp
  have "round_double x = Finite (real_of_int (rne (x / q)) * q)"
    using fin by (simp add: round_double_def Let_def q_def e_def)
  with r0 r100 show ?thesis by simp
qed

lemma round_double_near_100:
  assumes "0 \<le> x" "x \<le> 100"
  shows "\<exists>y. round_double x = Finite y \<and> 0 \<le> y \<and> y \<le> 100 \<and> \<bar>y - x\<bar> \<le> pow2 (- 47)"
proof -
  define e where "e = expo x"
  define q where "q = pow2 (e - 52)"
  have qpos: "0 < q" by (simp add: q_def)
  have p7: "pow2 7 = 128" by (simp add: pow2_def)
  from assms have "\<bar>x\<bar> < pow2 (6 + 1)" by (simp add: p7)
  then have e6: "e \<le> 6" unfolding e_def by (rule expo_le) simp_all
  then have "pow2 (e - 52) \<le> pow2 (- 46)" by simp
  moreover have "pow2 (- 46) = pow2 (- 47) * 2"
    using pow2_add [of "- 47" 1] by (simp add: pow2_def [of 1])
  ultimately have q46: "q / 2 \<le> pow2 (- 47)" unfolding q_def by linarith
  from assms have "x \<le> 100 + pow2 (- 47)" by (simp add: add_increasing2)
  from round_double_le_100 [OF assms(1) this]
  obtain y where y: "round_double x = Finite y" "0 \<le> y" "y \<le> 100" by blast
  have "pow2 (- 47) < 1" using pow2_less_iff [of "- 47" 0] by (simp add: pow2_def del: pow2_less_iff)
  have "y = real_of_int (rne (x / q)) * q"
    using y(1) by (simp add: round_double_def Let_def q_def e_def split: if_splits)
  then have "y - x = (real_of_int (rne (x / q)) - x / q) * q" using qpos by (simp add: field_simps)
  then have "\<bar>y - x\<bar> = \<bar>real_of_int (rne (x / q)) - x / q\<bar> * q" using qpos by (simp add: abs_mult)
  also have "\<dots> \<le> (1 / 2) * q" using rne_near [of "x / q"] qpos by (simp add: mult_right_mono del: times_divide_eq_left)
  finally have "\<bar>y - x\<bar> \<le> q / 2" by simp
  with q46 y show ?thesis by auto
qed

lemma rne_bound:
  assumes "\<bar>y\<bar> < 2 ^ 53"
  shows "\<bar>real_of_int (rne y)\<bar> \<le> 2 ^ 53"
proof -
  from rne_near [of y] assms have "\<bar>real_of_int (rne y)\<bar> < 2 ^ 53 + 1" by linarith
  then have "real_of_int \<bar>rne y\<bar> < real_of_int (2 ^ 53 + 1)" by simp
  then have "\<bar>rne y\<bar> < 2 ^ 53 + 1" by (simp only: of_int_less_iff)
  then have "\<bar>rne y\<bar> \<le> 2 ^ 53" by simp
  then have "real_of_int \<bar>rne y\<bar> \<le> real_of_int (2 ^ 53)" by (simp only: of_int_le_iff)
  then show ?thesis by simp
qed

lemma round_double_at:
  assumes "pow2 e \<le> \<bar>x\<bar>" "\<bar>x\<bar> < pow2 (e + 1)" "- 1022 \<le> e" "e \<le> 1022"
    and "rne (x / pow2 (e - 52)) = m"
  shows "round_double x = Finite (real_of_int m * pow2 (e - 52))"
proof -
  have split: "pow2 (e + 1) = pow2 53 * pow2 (e - 52)"
    using pow2_add [of 53 "e - 52"] by (simp add: add.commute)
  with assms(2) have "\<bar>x\<bar> / pow2 (e - 52) < pow2 53" by (simp add: divide_less_eq)
  then have "\<bar>x / pow2 (e - 52)\<bar> < 2 ^ 53" using pow2_nat [of 53] by simp
  then have "\<bar>real_of_int m\<bar> \<le> 2 ^ 53" using rne_bound assms(5) by blast
  then have "\<bar>real_of_int m\<bar> * pow2 (e - 52) \<le> pow2 53 * pow2 (e - 52)"
    using pow2_nat [of 53] by (simp add: mult_right_mono)
  also have "\<dots> = pow2 (e + 1)" by (simp only: split)
  also from assms(4) have "\<dots> < pow2 1024" by simp
  finally have "\<not> pow2 1024 \<le> \<bar>real_of_int m * pow2 (e - 52)\<bar>" by (simp add: abs_mult)
  with assms show ?thesis by (simp add: round_double_eval)
qed

lemma submit_accepts:
  assumes "s_latLng sub = Some p" "s_amount sub \<noteq> []" "parseFloat js (s_amount sub) = n"
    and "\<not> isNaN n" "\<not> num_le n (Finite 0)" "\<not> num_gt n (remainingCapacity (c_bins st))"
  shows "c_bins (snd (submit js sub (sto, st))) =
           c_bins st @ [newBin js (s_t_id sub) (s_t_created sub) (s_location sub) p n]"
  using assms by (simp add: submit_def handleSubmit_def Let_def split: sum.splits)

lemma parse_demo_integer [simp]:
  "parse_decimal ''150'' = Some 150" "parse_decimal ''40'' = Some 40"
  "parse_decimal ''15'' = Some 15" "parse_decimal ''10'' = Some 10"
  "parse_decimal ''576460752303423616'' = Some 576460752303423616"
  by (simp_all add: parse_decimal_def digit_val_def)

lemma parse_demo_fraction [simp]:
  "parse_decimal ''0.1'' = Some (1 / 10)" "parse_decimal ''0.2'' = Some (1 / 5)"
  "parse_decimal ''99.7'' = Some (997 / 10)"
  by (simp_all add: parse_decimal_def digit_val_def)

lemma double_tenth: "round_double (1 / 10) = Finite (3602879701896397 / 36028797018963968)"
proof -
  have "rne ((1 / 10) / pow2 (- 4 - 52)) = 7205759403792794"
    by (simp add: pow2_def rne_def)
  from round_double_at [OF _ _ _ _ this] show ?thesis by (simp add: pow2_def)
qed

lemma double_fifth: "round_double (1 / 5) = Finite (3602879701896397 / 18014398509481984)"
proof -
  have "rne ((1 / 5) / pow2 (- 3 - 52)) = 7205759403792794"
    by (simp add: pow2_def rne_def)
  from round_double_at [OF _ _ _ _ this] show ?thesis by (simp add: pow2_def)
qed

lemma double_99_7: "round_double (997 / 10) = Finite (7015763794513101 / 70368744177664)"
proof -
  have "rne ((997 / 10) / pow2 (6 - 52)) = 7015763794513101"
    by (simp add: pow2_def rne_def)
  from round_double_at [OF _ _ _ _ this] show ?thesis by (simp add: pow2_def)
qed

lemma double_tenth_fixed:
  "round_double (3602879701896397 / 36028797018963968) = Finite (3602879701896397 / 36028797018963968)"
proof -
  have "rne ((3602879701896397 / 36028797018963968) / pow2 (- 4 - 52)) = 7205759403792794"
    by (simp add: pow2_def)
  from round_double_at [OF _ _ _ _ this] show ?thesis by (simp add: pow2_def)
qed

lemma double_sum_tenth_fifth:
  "round_double (10808639105689191 / 36028797018963968) = Finite (1351079888211149 / 4503599627370496)"
proof -
  have "rne ((10808639105689191 / 36028797018963968) / pow2 (- 2 - 52)) = 5404319552844596"
    by (simp add: pow2_def rne_def)
  from round_double_at [OF _ _ _ _ this] show ?thesis by (simp add: pow2_def)
qed

lemma double_rest_1:
  "round_double (3599276822194500403 / 36028797018963968) = Finite (3514918771674317 / 35184372088832)"
proof -
  have "rne ((3599276822194500403 / 36028797018963968) / pow2 (6 - 52)) = 7029837543348634"
    by (simp add: pow2_def rne_def)
  from round_double_at [OF _ _ _ _ this] show ?thesis by (simp add: pow2_def)
qed

lemma double_rest_2:
  "round_double (449008882848838451 / 4503599627370496) = Finite (7015763794513101 / 70368744177664)"
proof -
  have "rne ((449008882848838451 / 4503599627370496) / pow2 (6 - 52)) = 7015763794513101"
    by (simp add: pow2_def rne_def)
  from round_double_at [OF _ _ _ _ this] show ?thesis by (simp add: pow2_def)
qed

lemma double_sum_all:
  "round_double (450359962737049613 / 4503599627370496) = Finite 100"
proof -
  have "rne ((450359962737049613 / 4503599627370496) / pow2 (6 - 52)) = 7036874417766400"
    by (simp add: pow2_def rne_def)
  from round_double_at [OF _ _ _ _ this] show ?thesis by (simp add: pow2_def)
qed

lemma double_big:
  "round_double (- 576460752303423488) = Finite (- 576460752303423488)"
  "round_double 576460752303423616 = Finite 576460752303423616"
  "round_double 576460752303423588 = Finite 576460752303423616"
proof -
  have "rne ((- 576460752303423488) / pow2 (59 - 52)) = - 4503599627370496"
    by (simp add: pow2_def rne_def)
  from round_double_at [OF _ _ _ _ this]
  show "round_double (- 576460752303423488) = Finite (- 576460752303423488)" by (simp add: pow2_def)
  have "rne (576460752303423616 / pow2 (59 - 52)) = 4503599627370497"
    by (simp add: pow2_def rne_def)
  from round_double_at [OF _ _ _ _ this]
  show "round_double 576460752303423616 = Finite 576460752303423616" by (simp add: pow2_def)
  have "rne (576460752303423588 / pow2 (59 - 52)) = 4503599627370497"
    by (simp add: pow2_def rne_def)
  from round_double_at [OF _ _ _ _ this]
  show "round_double 576460752303423588 = Finite 576460752303423616" by (simp add: pow2_def)
qed

subsection \<open>Capacity\<close>

lemma totalAmount_snoc: "totalAmount (bs @ [b]) = num_add (totalAmount bs) (amount b)"
  by (simp add: totalAmount_def)

lemma amount_newBin [simp]: "amount (newBin js t_id t_created loc latLng a) = a"
  by (simp add: newBin_def)

lemma bin_id_newBin [simp]: "bin_id (newBin js t_id t_created loc latLng a) = t_id"
  by (simp add: newBin_def)

lemma in_range_iff:
  "num_le (Finite lo) T \<and> num_le T (Finite hi) \<longleftrightarrow> (\<exists>t. T = Finite t \<and> lo \<le> t \<and> t \<le> hi)"
  by (cases T) (auto simp: num_le_def isNaN_def)

lemma Math_max_0_nonneg: "0 \<le> r \<Longrightarrow> Math_max (Finite 0) (Finite r) = Finite r"
  by (simp add: Math_max_def isNaN_def)

lemma remaining_in_range:
  assumes "0 \<le> t" "t \<le> 100"
  shows "\<exists>r. Math_max (Finite 0) (num_sub (Finite 100) (Finite t)) = Finite r
           \<and> 0 \<le> r \<and> \<bar>r - (100 - t)\<bar> \<le> pow2 (- 47)"
proof -
  from assms have "0 \<le> 100 - t" "100 - t \<le> 100" by simp_all
  from round_double_near_100 [OF this]
  obtain r where r: "round_double (100 - t) = Finite r" "0 \<le> r" "\<bar>r - (100 - t)\<bar> \<le> pow2 (- 47)"
    by blast
  then show ?thesis by (simp add: num_sub_def Math_max_0_nonneg)
qed

lemma accepted_amount_in_range:
  assumes t: "0 \<le> t" "t \<le> 100"
    and n: "\<not> isNaN n" "\<not> num_le n (Finite 0)"
      "\<not> num_gt n (Math_max (Finite 0) (num_sub (Finite 100) (Finite t)))"
  shows "\<exists>t'. num_add (Finite t) n = Finite t' \<and> 0 \<le> t' \<and> t' \<le> 100"
proof -
  from remaining_in_range [OF t]
  obtain r where r: "Math_max (Finite 0) (num_sub (Finite 100) (Finite t)) = Finite r"
    "0 \<le> r" "\<bar>r - (100 - t)\<bar> \<le> pow2 (- 47)" by blast
  from n r(1) obtain a where a: "n = Finite a" "0 < a" "a \<le> r"
    by (cases n) (auto simp: isNaN_def num_le_def num_gt_def)
  from r(3) have "r \<le> 100 - t + pow2 (- 47)" by (simp add: abs_le_iff)
  with a have up: "t + a \<le> 100 + pow2 (- 47)" by simp
  from t a have "0 \<le> t + a" by simp
  from round_double_le_100 [OF this up] a(1) show ?thesis by simp
qed

lemma submit_bins_cases:
  "fst (submit js sub (sto, st)) = sto \<and> c_bins (snd (submit js sub (sto, st))) = c_bins st
   \<or> (\<exists>b. \<not> isNaN (amount b) \<and> \<not> num_le (amount b) (Finite 0)
         \<and> \<not> num_gt (amount b) (remainingCapacity (c_bins st))
         \<and> amount b = parseFloat js (s_amount sub) \<and> bin_id b = s_t_id sub
         \<and> c_bins (snd (submit js sub (sto, st))) = c_bins st @ [b])"
  by (auto simp: submit_def handleSubmit_def Let_def split: option.splits sum.splits)

lemma submit_keeps_range:
  assumes "num_le (Finite 0) (totalAmount (c_bins st))"
    and "num_le (totalAmount (c_bins st)) (Finite MAX_TRUCK_CAPACITY)"
  shows "num_le (Finite 0) (totalAmount (c_bins (snd (submit js sub (sto, st)))))
     \<and> num_le (totalAmount (c_bins (snd (submit js sub (sto, st))))) (Finite MAX_TRUCK_CAPACITY)"
proof -
  from assms obtain t where t: "totalAmount (c_bins st) = Finite t" "0 \<le> t" "t \<le> 100"
    using in_range_iff [of 0 "totalAmount (c_bins st)" 100] by (auto simp: MAX_TRUCK_CAPACITY_def)
  from submit_bins_cases [of js sub sto st] show ?thesis
  proof
    assume "fst (submit js sub (sto, st)) = sto \<and> c_bins (snd (submit js sub (sto, st))) = c_bins st"
    with assms show ?thesis by simp
  next
    assume "\<exists>b. \<not> isNaN (amount b) \<and> \<not> num_le (amount b) (Finite 0)
         \<and> \<not> num_gt (amount b) (remainingCapacity (c_bins st))
         \<and> amount b = parseFloat js (s_amount sub) \<and> bin_id b = s_t_id sub
         \<and> c_bins (snd (submit js sub (sto, st))) = c_bins st @ [b]"
    then obtain b where b: "\<not> isNaN (amount b)" "\<not> num_le (amount b) (Finite 0)"
        "\<not> num_gt (amount b) (remainingCapacity (c_bins st))"
      and bs: "c_bins (snd (submit js sub (sto, st))) = c_bins st @ [b]" by blast
    from b(3) have "\<not> num_gt (amount b) (Math_max (Finite 0) (num_sub (Finite 100) (Finite t)))"
      by (simp add: remainingCapacity_def t(1) MAX_TRUCK_CAPACITY_def)
    from accepted_amount_in_range [OF t(2,3) b(1,2) this]
    obtain t' where "num_add (Finite t) (amount b) = Finite t'" "0 \<le> t'" "t' \<le> 100" by blast
    then show ?thesis
      using in_range_iff [of 0 "Finite t'" 100]
      by (simp add: bs totalAmount_snoc t(1) MAX_TRUCK_CAPACITY_def)
  qed
qed

lemma submit_all_snoc: "submit_all js (subs @ [sub]) w = submit js sub (submit_all js subs w)"
  by (simp add: submit_all_def)

lemma submit_all_keeps_range:
  assumes "num_le (Finite 0) (totalAmount (c_bins (snd w)))"
    and "num_le (totalAmount (c_bins (snd w))) (Finite MAX_TRUCK_CAPACITY)"
  shows "num_le (Finite 0) (totalAmount (c_bins (snd (submit_all js subs w))))
     \<and> num_le (totalAmount (c_bins (snd (submit_all js subs w)))) (Finite MAX_TRUCK_CAPACITY)"
proof (induction subs rule: rev_induct)
  case Nil
  from assms show ?case by (simp add: submit_all_def)
next
  case (snoc sub subs)
  then show ?case
    using submit_keeps_range [of "snd (submit_all js subs w)" js sub "fst (submit_all js subs w)"]
    by (simp add: submit_all_snoc)
qed

lemma over_capacity_is_positive:
  assumes "num_gt n (Math_max (Finite 0) x)"
  shows "\<not> isNaN n \<and> \<not> num_le n (Finite 0)"
  using assms by (cases n; cases x) (auto simp: num_gt_def Math_max_def isNaN_def num_le_def split: if_splits)

lemma submit_over_capacity:
  assumes "num_gt (parseFloat js (s_amount sub)) (remainingCapacity (c_bins st))"
  shows "submit js sub (sto, st) =
     (sto, st\<lparr>c_amount := s_amount sub, c_latLng := s_latLng sub, c_location := s_location sub,
        c_notification := Some \<lparr>message =
            (if s_latLng sub = None \<or> s_amount sub = []
             then ''Please pin a location and enter the waste amount.''
             else ''Amount exceeds remaining truck capacity of ''
                    @ toFixed js 2 (remainingCapacity (c_bins st)) @ '' kg.''),
          type = error\<rparr>,
        c_isSubmitting := False\<rparr>)"
proof -
  from assms over_capacity_is_positive
  have "\<not> isNaN (parseFloat js (s_amount sub)) \<and> \<not> num_le (parseFloat js (s_amount sub)) (Finite 0)"
    unfolding remainingCapacity_def by blast
  then have pos: "\<not> isNaN (parseFloat js (s_amount sub))"
    "\<not> num_le (parseFloat js (s_amount sub)) (Finite 0)" by simp_all
  show ?thesis
  proof (cases "s_latLng sub")
    case None
    then show ?thesis by (simp add: submit_def handleSubmit_def)
  next
    case (Some latLng)
    show ?thesis
    proof (cases "s_amount sub = []")
      case True
      with Some show ?thesis by (simp add: submit_def handleSubmit_def)
    next
      case False
      with Some assms pos show ?thesis by (simp add: submit_def handleSubmit_def)
    qed
  qed
qed

lemma stringify_demo: "JSON_stringify demo_platform bs = ''['' @ concat (map bin_id bs) @ '']''"
  by (simp add: demo_platform_def)

lemma remaining_empty: "remainingCapacity [] = Finite 100"
  by (simp add: remainingCapacity_def totalAmount_def MAX_TRUCK_CAPACITY_def num_sub_def
      Math_max_def isNaN_def)

lemma no_pin_rejected:
  "num_gt (parseFloat demo_platform (s_amount sub_no_pin)) (remainingCapacity (c_bins client_init))
   \<and> c_notification (snd (submit demo_platform sub_no_pin (store0, client_init))) =
       Some \<lparr>message = ''Please pin a location and enter the waste amount.'', type = error\<rparr>"
  by (simp add: sub_no_pin_def sub_of_def parseFloat_demo client_init_def remaining_empty
      num_gt_def submit_def handleSubmit_def)

lemma negative_start_exceeds:
  "num_le (totalAmount (c_bins neg_start)) (Finite MAX_TRUCK_CAPACITY)
   \<and> totalAmount (c_bins (snd (submit demo_platform (sub_of ''576460752303423616'' ''t1'')
        (store0, neg_start)))) = Finite 128"
proof -
  have t: "totalAmount (c_bins neg_start) = Finite (- 576460752303423488)"
    by (simp add: neg_start_def client_init_def bin_at_def totalAmount_def double_big)
  have r: "remainingCapacity (c_bins neg_start) = Finite 576460752303423616"
    by (simp add: remainingCapacity_def t MAX_TRUCK_CAPACITY_def num_sub_def double_big
        Math_max_def isNaN_def)
  have p: "parseFloat demo_platform (s_amount (sub_of ''576460752303423616'' ''t1''))
      = Finite 576460752303423616"
    by (simp add: sub_of_def parseFloat_demo double_big)
  have "c_bins (snd (submit demo_platform (sub_of ''576460752303423616'' ''t1'') (store0, neg_start)))
     = c_bins neg_start @ [newBin demo_platform ''t1'' ''t1'' ''Depot Road'' pin0 (Finite 576460752303423616)]"
    using submit_accepts [of "sub_of ''576460752303423616'' ''t1''" pin0 demo_platform
        "Finite 576460752303423616" neg_start store0] p r
    by (simp add: sub_of_def isNaN_def num_le_def num_gt_def)
  then have "totalAmount (c_bins (snd (submit demo_platform (sub_of ''576460752303423616'' ''t1'')
        (store0, neg_start)))) = Finite 128"
    by (simp add: totalAmount_snoc t)
  with t show ?thesis by (simp add: num_le_def isNaN_def MAX_TRUCK_CAPACITY_def)
qed

lemma tenths_accepted:
  "map amount (c_bins (snd (submit_all demo_platform
       [sub_of ''0.1'' ''t1'', sub_of ''0.2'' ''t2'', sub_of ''99.7'' ''t3''] (store0, client_init))))
     = [Finite (3602879701896397 / 36028797018963968),
        Finite (3602879701896397 / 18014398509481984),
        Finite (7015763794513101 / 70368744177664)]
   \<and> totalAmount (c_bins (snd (submit_all demo_platform
       [sub_of ''0.1'' ''t1'', sub_of ''0.2'' ''t2'', sub_of ''99.7'' ''t3''] (store0, client_init))))
     = Finite 100"
proof -
  define w1 where "w1 = submit demo_platform (sub_of ''0.1'' ''t1'') (store0, client_init)"
  define w2 where "w2 = submit demo_platform (sub_of ''0.2'' ''t2'') w1"
  define w3 where "w3 = submit demo_platform (sub_of ''99.7'' ''t3'') w2"
  define b1 where "b1 = newBin demo_platform ''t1'' ''t1'' ''Depot Road'' pin0
      (Finite (3602879701896397 / 36028797018963968))"
  define b2 where "b2 = newBin demo_platform ''t2'' ''t2'' ''Depot Road'' pin0
      (Finite (3602879701896397 / 18014398509481984))"
  define b3 where "b3 = newBin demo_platform ''t3'' ''t3'' ''Depot Road'' pin0
      (Finite (7015763794513101 / 70368744177664))"
  have p1: "parseFloat demo_platform (s_amount (sub_of ''0.1'' ''t1''))
      = Finite (3602879701896397 / 36028797018963968)"
    by (simp add: sub_of_def parseFloat_demo double_tenth)
  have p2: "parseFloat demo_platform (s_amount (sub_of ''0.2'' ''t2''))
      = Finite (3602879701896397 / 18014398509481984)"
    by (simp add: sub_of_def parseFloat_demo double_fifth)
  have p3: "parseFloat demo_platform (s_amount (sub_of ''99.7'' ''t3''))
      = Finite (7015763794513101 / 70368744177664)"
    by (simp add: sub_of_def parseFloat_demo double_99_7)
  have c1: "c_bins (snd w1) = [b1]"
    unfolding w1_def b1_def
    using submit_accepts [of "sub_of ''0.1'' ''t1''" pin0 demo_platform _ client_init store0, OF _ _ p1]
    by (simp add: sub_of_def client_init_def remaining_empty isNaN_def num_le_def num_gt_def)
  have t1: "totalAmount [b1] = Finite (3602879701896397 / 36028797018963968)"
    by (simp add: totalAmount_def b1_def double_tenth_fixed)
  have r1: "remainingCapacity [b1] = Finite (3514918771674317 / 35184372088832)"
    by (simp add: remainingCapacity_def t1 MAX_TRUCK_CAPACITY_def num_sub_def double_rest_1
        Math_max_def isNaN_def)
  have c2: "c_bins (snd w2) = [b1, b2]"
    unfolding w2_def b2_def
    using submit_accepts [of "sub_of ''0.2'' ''t2''" pin0 demo_platform _ "snd w1" "fst w1", OF _ _ p2]
    by (simp add: sub_of_def c1 r1 isNaN_def num_le_def num_gt_def)
  have t2: "totalAmount [b1, b2] = Finite (1351079888211149 / 4503599627370496)"
    using totalAmount_snoc [of "[b1]" b2] by (simp add: t1 b2_def double_sum_tenth_fifth)
  have r2: "remainingCapacity [b1, b2] = Finite (7015763794513101 / 70368744177664)"
    by (simp add: remainingCapacity_def t2 MAX_TRUCK_CAPACITY_def num_sub_def double_rest_2
        Math_max_def isNaN_def)
  have c3: "c_bins (snd w3) = [b1, b2, b3]"
    unfolding w3_def b3_def
    using submit_accepts [of "sub_of ''99.7'' ''t3''" pin0 demo_platform _ "snd w2" "fst w2", OF _ _ p3]
    by (simp add: sub_of_def c2 r2 isNaN_def num_le_def num_gt_def)
  have t3: "totalAmount [b1, b2, b3] = Finite 100"
    using totalAmount_snoc [of "[b1, b2]" b3] by (simp add: t2 b3_def double_sum_all)
  have "submit_all demo_platform
       [sub_of ''0.1'' ''t1'', sub_of ''0.2'' ''t2'', sub_of ''99.7'' ''t3''] (store0, client_init) = w3"
    by (simp add: submit_all_def w1_def w2_def w3_def)
  with c3 t3 show ?thesis by (simp add: b1_def b2_def b3_def)
qed

text \<open>
  Claim C1, as stated, fails in three ways. A submission over the remaining capacity that
  has no pin is rejected with the missing-input error, not the capacity error. The
  amounts 0.1, 0.2 and 99.7 are all accepted, the total the client computes is 100, and
  the exact sum of the three stored amounts is more than 100. And from a stored bin with
  the negative amount \<open>-2^59\<close>, whose total is below 100, the amount \<open>2^59 + 128\<close> is
  accepted (the remaining capacity \<open>2^59 + 100\<close> rounds up to it) and the total becomes 128.
\<close>

theorem capacity_claim_counterexample:
  "num_gt (parseFloat demo_platform (s_amount sub_no_pin)) (remainingCapacity (c_bins client_init))
   \<and> c_notification (snd (submit demo_platform sub_no_pin (store0, client_init))) =
       Some \<lparr>message = ''Please pin a location and enter the waste amount.'', type = error\<rparr>
   \<and> map amount (c_bins (snd (submit_all demo_platform
       [sub_of ''0.1'' ''t1'', sub_of ''0.2'' ''t2'', sub_of ''99.7'' ''t3''] (store0, client_init))))
     = [Finite (3602879701896397 / 36028797018963968),
        Finite (3602879701896397 / 18014398509481984),
        Finite (7015763794513101 / 70368744177664)]
   \<and> (100::real) < 3602879701896397 / 36028797018963968 + 3602879701896397 / 18014398509481984
         + 7015763794513101 / 70368744177664
   \<and> num_le (totalAmount (c_bins neg_start)) (Finite MAX_TRUCK_CAPACITY)
   \<and> totalAmount (c_bins (snd (submit demo_platform (sub_of ''576460752303423616'' ''t1'')
        (store0, neg_start)))) = Finite 128"
proof -
  have "(100::real) < 3602879701896397 / 36028797018963968 + 3602879701896397 / 18014398509481984
         + 7015763794513101 / 70368744177664" by simp
  with no_pin_rejected tenths_accepted negative_start_exceeds show ?thesis by blast
qed

text \<open>
  Claim C1, amended. Starting from bins whose total amount, as the client computes it
  (adding the amounts from the left in double arithmetic), is between 0 and
  \<open>MAX_TRUCK_CAPACITY\<close> (100 kg), that total stays between 0 and 100 after any number of
  steps of any sequence of submissions. A submission whose amount is more than the
  remaining capacity is rejected with an error, and neither the bins in memory nor the
  store change; the error is the capacity-exceeded one when a pin is set and the amount
  text is not empty, and the missing-input one otherwise.
\<close>

theorem submit_capacity_invariant:
  assumes "num_le (Finite 0) (totalAmount (c_bins st))"
    and "num_le (totalAmount (c_bins st)) (Finite MAX_TRUCK_CAPACITY)"
  shows "(\<forall>n. num_le (Finite 0) (totalAmount (c_bins (snd (submit_all js (take n subs) (sto, st)))))
            \<and> num_le (totalAmount (c_bins (snd (submit_all js (take n subs) (sto, st)))))
                 (Finite MAX_TRUCK_CAPACITY))
    \<and> (num_gt (parseFloat js (s_amount sub)) (remainingCapacity (c_bins st)) \<longrightarrow>
          fst (submit js sub (sto, st)) = sto
          \<and> c_bins (snd (submit js sub (sto, st))) = c_bins st
          \<and> c_notification (snd (submit js sub (sto, st))) =
              Some \<lparr>message =
                 (if s_latLng sub = None \<or> s_amount sub = []
                  then ''Please pin a location and enter the waste amount.''
                  else ''Amount exceeds remaining truck capacity of ''
                         @ toFixed js 2 (remainingCapacity (c_bins st)) @ '' kg.''),
                type = error\<rparr>)"
proof (intro conjI allI impI)
  fix n
  from submit_all_keeps_range [of "(sto, st)" js "take n subs"] assms
  show "num_le (Finite 0) (totalAmount (c_bins (snd (submit_all js (take n subs) (sto, st)))))"
    and "num_le (totalAmount (c_bins (snd (submit_all js (take n subs) (sto, st)))))
                 (Finite MAX_TRUCK_CAPACITY)"
    by simp_all
next
  assume over: "num_gt (parseFloat js (s_amount sub)) (remainingCapacity (c_bins st))"
  note eq = submit_over_capacity [OF over, of sto]
  show "fst (submit js sub (sto, st)) = sto" by (simp add: eq)
  show "c_bins (snd (submit js sub (sto, st))) = c_bins st" by (simp add: eq)
  show "c_notification (snd (submit js sub (sto, st))) =
              Some \<lparr>message =
                 (if s_latLng sub = None \<or> s_amount sub = []
                  then ''Please pin a location and enter the waste amount.''
                  else ''Amount exceeds remaining truck capacity of ''
                         @ toFixed js 2 (remainingCapacity (c_bins st)) @ '' kg.''),
                type = error\<rparr>" by (simp add: eq)
qed

theorem submit_capacity_invariant_witness:
  "num_le (Finite 0) (totalAmount (c_bins client_init))
   \<and> num_le (totalAmount (c_bins client_init)) (Finite MAX_TRUCK_CAPACITY)
   \<and> (\<forall>n. num_le (Finite 0) (totalAmount (c_bins (snd (submit_all demo_platform
            (take n [sub_of ''40'' ''t1'', sub_of ''40'' ''t2'', sub_of ''15'' ''t3'', sub_of ''10'' ''t4''])
            (store0, client_init)))))
          \<and> num_le (totalAmount (c_bins (snd (submit_all demo_platform
            (take n [sub_of ''40'' ''t1'', sub_of ''40'' ''t2'', sub_of ''15'' ''t3'', sub_of ''10'' ''t4''])
            (store0, client_init))))) (Finite MAX_TRUCK_CAPACITY))
   \<and> num_gt (parseFloat demo_platform (s_amount (sub_of ''150'' ''t5'')))
        (remainingCapacity (c_bins client_init))
   \<and> fst (submit demo_platform (sub_of ''150'' ''t5'') (store0, client_init)) = store0
   \<and> c_bins (snd (submit demo_platform (sub_of ''150'' ''t5'') (store0, client_init))) = []
   \<and> c_notification (snd (submit demo_platform (sub_of ''150'' ''t5'') (store0, client_init))) =
        Some \<lparr>message = ''Amount exceeds remaining truck capacity of 100.00 kg.'', type = error\<rparr>"
proof -
  have h: "num_le (Finite 0) (totalAmount (c_bins client_init))"
    "num_le (totalAmount (c_bins client_init)) (Finite MAX_TRUCK_CAPACITY)"
    by (simp_all add: client_init_def totalAmount_def MAX_TRUCK_CAPACITY_def num_le_def isNaN_def)
  have c: "c_bins client_init = []" by (simp add: client_init_def)
  have g: "num_gt (parseFloat demo_platform (s_amount (sub_of ''150'' ''t5'')))
        (remainingCapacity (c_bins client_init))"
    by (simp add: sub_of_def parseFloat_demo c remaining_empty num_gt_def)
  have t: "fixed 2 (scaled 2 100) = ''100.00''"
    by (simp add: scaled_def fixed_def pad_zeros_def digits.simps digit_char_def)
  have s: "s_latLng (sub_of ''150'' ''t5'') \<noteq> None" "s_amount (sub_of ''150'' ''t5'') \<noteq> []"
    by (simp_all add: sub_of_def)
  note inst = submit_capacity_invariant [OF h, of demo_platform
      "[sub_of ''40'' ''t1'', sub_of ''40'' ''t2'', sub_of ''15'' ''t3'', sub_of ''10'' ''t4'']"
      store0 "sub_of ''150'' ''t5''"]
  from inst have inv: "\<forall>n. num_le (Finite 0) (totalAmount (c_bins (snd (submit_all demo_platform
            (take n [sub_of ''40'' ''t1'', sub_of ''40'' ''t2'', sub_of ''15'' ''t3'', sub_of ''10'' ''t4''])
            (store0, client_init)))))
          \<and> num_le (totalAmount (c_bins (snd (submit_all demo_platform
            (take n [sub_of ''40'' ''t1'', sub_of ''40'' ''t2'', sub_of ''15'' ''t3'', sub_of ''10'' ''t4''])
            (store0, client_init))))) (Finite MAX_TRUCK_CAPACITY)"
    by (rule conjunct1)
  from inst g have rej: "fst (submit demo_platform (sub_of ''150'' ''t5'') (store0, client_init)) = store0
      \<and> c_bins (snd (submit demo_platform (sub_of ''150'' ''t5'') (store0, client_init))) = c_bins client_init
      \<and> c_notification (snd (submit demo_platform (sub_of ''150'' ''t5'') (store0, client_init))) =
          Some \<lparr>message = ''Amount exceeds remaining truck capacity of ''
                  @ toFixed demo_platform 2 (remainingCapacity (c_bins client_init)) @ '' kg.'',
                type = error\<rparr>"
    using s by simp
  from rej have msg: "c_notification (snd (submit demo_platform (sub_of ''150'' ''t5'') (store0, client_init))) =
        Some \<lparr>message = ''Amount exceeds remaining truck capacity of 100.00 kg.'', type = error\<rparr>"
    by (simp add: c remaining_empty t)
  from rej have f: "fst (submit demo_platform (sub_of ''150'' ''t5'') (store0, client_init)) = store0"
    "c_bins (snd (submit demo_platform (sub_of ''150'' ''t5'') (store0, client_init))) = []"
    by (simp_all add: c)
  from h inv g f msg show ?thesis by blast
qed

text \<open>The scenario of the specification: 40, 40 and 15 are accepted, 10 is rejected.\<close>

lemma capacity_scenario:
  "map amount (c_bins (snd (submit_all demo_platform
     [sub_of ''40'' ''t1'', sub_of ''40'' ''t2'', sub_of ''15'' ''t3'', sub_of ''10'' ''t4'']
     (store0, client_init)))) = [Finite 40, Finite 40, Finite 15]"
  by (simp add: submit_all_def submit_def handleSubmit_def sub_of_def store0_def client_init_def
      parseFloat_demo stringify_demo remainingCapacity_def totalAmount_def MAX_TRUCK_CAPACITY_def
      setItem_def num_sub_def Math_max_def isNaN_def num_le_def num_gt_def Let_def)

subsection \<open>Adding and clearing\<close>

text \<open>
  Claim C8. When the checks of \<^verbatim>\<open>handleSubmit\<close> pass and the write to the store throws, the
  bins in memory are not rolled back: the new bin stays at the end of the list, the
  notification is the warning that the data may be lost on refresh, the store is as it
  was, and the handler goes on to reset the form.
\<close>

theorem submit_persist_failure:
  assumes "c_latLng st = Some latLng" and "c_amount st \<noteq> []"
    and "parseFloat js (c_amount st) = n" and "\<not> isNaN n" and "\<not> num_le n (Finite 0)"
    and "\<not> num_gt n (remainingCapacity (c_bins st))"
    and "setItem sto (JSON_stringify js
           (c_bins st @ [newBin js t_id t_created (c_location st) latLng n])) = Inl e"
  shows "handleSubmit js t_id t_created (sto, st) =
     (sto, st\<lparr>c_bins := c_bins st @ [newBin js t_id t_created (c_location st) latLng n],
              c_notification := Some \<lparr>message = ''Failed to save bin. Data might be lost on refresh.'',
                                      type = error\<rparr>,
              c_location := '''', c_amount := '''', c_latLng := None, c_isSubmitting := False\<rparr>)"
  using assms by (simp add: handleSubmit_def)

theorem submit_persist_failure_witness:
  "setItem store_full (JSON_stringify demo_platform
       (c_bins form0 @ [newBin demo_platform ''t1'' ''t1'' (c_location form0) pin0 (Finite 40)]))
     = Inl QuotaExceededError
   \<and> handleSubmit demo_platform ''t1'' ''t1'' (store_full, form0) =
     (store_full, form0\<lparr>c_bins := c_bins form0
                  @ [newBin demo_platform ''t1'' ''t1'' (c_location form0) pin0 (Finite 40)],
              c_notification := Some \<lparr>message = ''Failed to save bin. Data might be lost on refresh.'',
                                      type = error\<rparr>,
              c_location := '''', c_amount := '''', c_latLng := None, c_isSubmitting := False\<rparr>)"
proof -
  have 1: "c_latLng form0 = Some pin0" "c_amount form0 \<noteq> []"
    by (simp_all add: form0_def)
  have 2: "parseFloat demo_platform (c_amount form0) = Finite 40"
    by (simp add: form0_def parseFloat_demo)
  have 3: "\<not> isNaN (Finite 40)" "\<not> num_le (Finite 40) (Finite 0)"
    "\<not> num_gt (Finite 40) (remainingCapacity (c_bins form0))"
    by (simp_all add: form0_def client_init_def remaining_empty isNaN_def num_le_def num_gt_def)
  have 4: "setItem store_full (JSON_stringify demo_platform
       (c_bins form0 @ [newBin demo_platform ''t1'' ''t1'' (c_location form0) pin0 (Finite 40)]))
     = Inl QuotaExceededError"
    by (simp add: setItem_def store_full_def stringify_demo)
  from submit_persist_failure [OF 1 2 3 4] 4 show ?thesis by simp
qed

text \<open>
  Claim C9. \<^verbatim>\<open>handleClear\<close> empties the bins in memory, so the total is 0 and the whole
  capacity is free again, and removes the stored value, so a portal that loads afterwards
  starts with no bins. It has no failing path, and clearing twice is clearing once.
\<close>

theorem handleClear_empties:
  "c_bins (snd (handleClear (sto, st))) = []
   \<and> totalAmount (c_bins (snd (handleClear (sto, st)))) = Finite 0
   \<and> remainingCapacity (c_bins (snd (handleClear (sto, st)))) = Finite MAX_TRUCK_CAPACITY
   \<and> getItem (fst (handleClear (sto, st))) = None
   \<and> client_load js (fst (handleClear (sto, st))) client_init = Inr client_init
   \<and> c_bins client_init = []
   \<and> driver_load js (fst (handleClear (sto, st))) driver_init
        = Inr (driver_init\<lparr>d_notification := Some no_bins_yet\<rparr>)
   \<and> d_bins (driver_init\<lparr>d_notification := Some no_bins_yet\<rparr>) = []
   \<and> handleClear (handleClear (sto, st)) = handleClear (sto, st)"
  by (simp add: handleClear_def removeItem_def getItem_def remaining_empty
      MAX_TRUCK_CAPACITY_def client_load_def driver_load_def client_init_def driver_init_def)
    (simp add: totalAmount_def)

text \<open>
  Claim C10. The id of a new bin is the clock reading \<^verbatim>\<open>new Date().toISOString()\<close>, which
  the source calls a ``simple unique ID''. Two submissions that read the same clock value
  are both stored, with the same id.
\<close>

theorem same_instant_ids_collide:
  "map bin_id (c_bins (snd (submit_all demo_platform
      [sub_of ''40'' ''2025-01-01T00:00:00.000Z'', sub_of ''15'' ''2025-01-01T00:00:00.000Z'']
      (store0, client_init))))
   = [''2025-01-01T00:00:00.000Z'', ''2025-01-01T00:00:00.000Z'']"
  by (simp add: submit_all_def submit_def handleSubmit_def sub_of_def store0_def client_init_def
      parseFloat_demo stringify_demo remainingCapacity_def totalAmount_def MAX_TRUCK_CAPACITY_def
      setItem_def num_sub_def Math_max_def isNaN_def num_le_def num_gt_def Let_def)

subsection \<open>Building the route request\<close>

lemma slice_0_m1_butlast: "slice_0_m1 xs = butlast xs"
  by (simp add: slice_0_m1_def butlast_conv_take)

lemma nth_length_minus_1: "xs \<noteq> [] \<Longrightarrow> xs ! (length xs - 1) = last xs"
  by (simp add: last_conv_nth)

text \<open>
  Claim C4. For a non-empty list of bins, \<^verbatim>\<open>planRoute\<close> hands a request to the directions
  service exactly when the map is ready, and that request has the depot
  (\<^verbatim>\<open>DEFAULT_CENTER\<close>) as origin, the position of the last bin as destination, the
  positions of all the other bins, in order and each with \<open>stopover = True\<close>, as waypoints
  (one per bin, equal positions are kept), \<open>optimizeWaypoints = True\<close> and the travel mode
  \<open>DRIVING\<close>. For a single bin the destination is that bin and there is no waypoint.
\<close>

theorem planRoute_request:
  assumes "d_bins st \<noteq> []"
  shows "snd (planRoute st) =
      (if d_map st then
         Some \<lparr>origin = DEFAULT_CENTER,
               destination = \<lparr>lat_of = lat (last (d_bins st)), lng_of = lng (last (d_bins st))\<rparr>,
               waypoints = map (\<lambda>b. \<lparr>wp_location = \<lparr>lat_of = lat b, lng_of = lng b\<rparr>, stopover = True\<rparr>)
                             (butlast (d_bins st)),
               optimizeWaypoints = True,
               travelMode = DRIVING\<rparr>
       else None)
     \<and> (\<forall>b. d_bins st = [b] \<and> d_map st \<longrightarrow>
           snd (planRoute st) =
             Some \<lparr>origin = DEFAULT_CENTER, destination = \<lparr>lat_of = lat b, lng_of = lng b\<rparr>,
                   waypoints = [], optimizeWaypoints = True, travelMode = DRIVING\<rparr>)"
proof -
  let ?locs = "map (\<lambda>b. \<lparr>lat_of = lat b, lng_of = lng b\<rparr>) (d_bins st)"
  from assms have ne: "?locs \<noteq> []" by simp
  have dest: "?locs ! (length ?locs - 1) = \<lparr>lat_of = lat (last (d_bins st)), lng_of = lng (last (d_bins st))\<rparr>"
    using assms nth_length_minus_1 [OF ne] by (simp add: last_map)
  have wps: "map (\<lambda>loc. \<lparr>wp_location = \<lparr>lat_of = lat_of loc, lng_of = lng_of loc\<rparr>, stopover = True\<rparr>)
               (slice_0_m1 ?locs)
           = map (\<lambda>b. \<lparr>wp_location = \<lparr>lat_of = lat b, lng_of = lng b\<rparr>, stopover = True\<rparr>)
               (butlast (d_bins st))"
    by (simp add: slice_0_m1_butlast map_butlast [symmetric] comp_def)
  have main: "snd (planRoute st) =
      (if d_map st then
         Some \<lparr>origin = DEFAULT_CENTER,
               destination = \<lparr>lat_of = lat (last (d_bins st)), lng_of = lng (last (d_bins st))\<rparr>,
               waypoints = map (\<lambda>b. \<lparr>wp_location = \<lparr>lat_of = lat b, lng_of = lng b\<rparr>, stopover = True\<rparr>)
                             (butlast (d_bins st)),
               optimizeWaypoints = True,
               travelMode = DRIVING\<rparr>
       else None)"
    using assms dest wps by (simp add: planRoute_def Let_def driverLocation_def)
  show ?thesis
  proof (intro conjI allI impI)
    show "snd (planRoute st) =
      (if d_map st then
         Some \<lparr>origin = DEFAULT_CENTER,
               destination = \<lparr>lat_of = lat (last (d_bins st)), lng_of = lng (last (d_bins st))\<rparr>,
               waypoints = map (\<lambda>b. \<lparr>wp_location = \<lparr>lat_of = lat b, lng_of = lng b\<rparr>, stopover = True\<rparr>)
                             (butlast (d_bins st)),
               optimizeWaypoints = True,
               travelMode = DRIVING\<rparr>
       else None)" by (rule main)
  next
    fix b assume "d_bins st = [b] \<and> d_map st"
    with main show "snd (planRoute st) =
             Some \<lparr>origin = DEFAULT_CENTER, destination = \<lparr>lat_of = lat b, lng_of = lng b\<rparr>,
                   waypoints = [], optimizeWaypoints = True, travelMode = DRIVING\<rparr>"
      by simp
  qed
qed

theorem planRoute_request_witness:
  "d_bins (driver_ready [bin_at ''A'' 40 1 1, bin_at ''B'' 40 2 2, bin_at ''C'' 15 3 3]) \<noteq> []
   \<and> snd (planRoute (driver_ready [bin_at ''A'' 40 1 1, bin_at ''B'' 40 2 2, bin_at ''C'' 15 3 3])) =
       Some \<lparr>origin = DEFAULT_CENTER, destination = \<lparr>lat_of = 3, lng_of = 3\<rparr>,
             waypoints = [\<lparr>wp_location = \<lparr>lat_of = 1, lng_of = 1\<rparr>, stopover = True\<rparr>,
                          \<lparr>wp_location = \<lparr>lat_of = 2, lng_of = 2\<rparr>, stopover = True\<rparr>],
             optimizeWaypoints = True, travelMode = DRIVING\<rparr>
   \<and> snd (planRoute (driver_ready [bin_at ''A'' 40 1 1])) =
       Some \<lparr>origin = DEFAULT_CENTER, destination = \<lparr>lat_of = 1, lng_of = 1\<rparr>,
             waypoints = [], optimizeWaypoints = True, travelMode = DRIVING\<rparr>"
proof -
  have 1: "d_bins (driver_ready [bin_at ''A'' 40 1 1, bin_at ''B'' 40 2 2, bin_at ''C'' 15 3 3]) \<noteq> []"
    and 2: "d_bins (driver_ready [bin_at ''A'' 40 1 1]) \<noteq> []"
    by (simp_all add: driver_ready_def)
  from planRoute_request [OF 1] planRoute_request [OF 2] 1 show ?thesis
    by (simp add: driver_ready_def driver_init_def bin_at_def)
qed

text \<open>
  Claim C5, as stated, fails when the map is not ready: \<^verbatim>\<open>planRoute\<close> checks the map
  first, and with no bins and no map it reports ``Map not ready.'', not the no-bins
  condition.
\<close>

theorem planRoute_map_not_ready_counterexample:
  "d_bins driver_init = []
   \<and> d_notification (fst (planRoute driver_init)) = Some \<lparr>message = ''Map not ready.'', type = error\<rparr>"
  by (simp add: planRoute_def driver_init_def)

text \<open>
  Claim C5, amended. With an empty list of bins \<^verbatim>\<open>planRoute\<close> sends no request and changes
  nothing but the notification: ``No bins to plan route.'' when the map is ready, ``Map not
  ready.'' when it is not. The status of the plan and the summary stay as they were. The
  ``Plan Route'' button is disabled for an empty list, so a click does nothing at all.
\<close>

theorem planRoute_no_bins:
  assumes "d_bins st = []"
  shows "snd (planRoute st) = None
     \<and> fst (planRoute st) = st\<lparr>d_notification := Some
          (if d_map st then \<lparr>message = ''No bins to plan route.'', type = info\<rparr>
           else \<lparr>message = ''Map not ready.'', type = error\<rparr>)\<rparr>
     \<and> click_planRoute st = (st, None)
     \<and> plan_status (fst (planRoute st)) = plan_status st
     \<and> d_routeSummary (fst (planRoute st)) = d_routeSummary st"
  using assms by (simp add: planRoute_def click_planRoute_def plan_status_def)

theorem planRoute_no_bins_witness:
  "d_bins (driver_ready []) = []
   \<and> snd (planRoute (driver_ready [])) = None
   \<and> d_notification (fst (planRoute (driver_ready []))) =
        Some \<lparr>message = ''No bins to plan route.'', type = info\<rparr>
   \<and> plan_status (fst (planRoute (driver_ready []))) = Unplanned
   \<and> d_routeSummary (fst (planRoute (driver_ready []))) = None"
proof -
  have 1: "d_bins (driver_ready []) = []" by (simp add: driver_ready_def)
  from planRoute_no_bins [OF 1] 1 show ?thesis
    by (simp add: driver_ready_def driver_init_def plan_status_def)
qed

subsection \<open>Interpreting the answer of the directions service\<close>

lemma or_0_whole [simp]: "or_0 (Some (Finite x)) = Finite x"
  by (simp add: or_0_def)












text \<open>
  The quotient is a double: for 1005 m it is the double next below 1.005, which is written
  ``1.00''.
\<close>

lemma double_1005_thousandths:
  "round_double (201 / 200) = Finite (1131529406376837 / 1125899906842624)"
proof -
  have "rne ((201 / 200) / pow2 (0 - 52)) = 4526117625507348"
    by (simp add: pow2_def rne_def)
  from round_double_at [OF _ _ _ _ this] show ?thesis by (simp add: pow2_def)
qed

lemma summary_1005_metres:
  "d_routeSummary (fst (directions_callback demo_platform (Some (result_of [leg_of 1005 60])) OK
        (driver_planning [bin_at ''A'' 40 1 1]))) =
       Some \<lparr>distance = ''1.00 km'', duration = ''1 min''\<rparr>"
  by (simp add: directions_callback_def result_of_def leg_of_def leg_total_def
      double_1005_thousandths scaled_def fixed_def pad_zeros_def digits.simps digit_char_def
      int_toString_def)

subsection \<open>Requests in flight\<close>

lemma callback_not_loading: "\<not> d_isLoadingRoute (fst (directions_callback js result status st))"
  by (simp add: directions_callback_def Let_def split: option.splits list.splits)

lemma click_planRoute_cases:
  "click_planRoute st = (st, None)
   \<or> (\<not> d_isLoadingRoute st \<and> (\<exists>n. click_planRoute st = (st\<lparr>d_notification := n\<rparr>, None)))
   \<or> (\<not> d_isLoadingRoute st \<and> (\<exists>st' r. click_planRoute st = (st', Some r) \<and> d_isLoadingRoute st'
         \<and> d_bins st' = d_bins st))"
  by (auto simp: click_planRoute_def planRoute_def Let_def)





lemma driver_step_bins: "d_bins (ui (driver_step js ev s)) = d_bins (ui s)"
proof (cases ev)
  case ClickPlanRoute
  from click_planRoute_cases [of "ui s"] show ?thesis
    by (auto simp: ClickPlanRoute driver_step_def)
next
  case ClickClearRoute
  then show ?thesis by (simp add: driver_step_def click_clearRoute_def clearRoute_def)
next
  case MapLoaded
  then show ?thesis by (simp add: driver_step_def onMapLoad_def)
next
  case (Response result status)
  then show ?thesis
    by (simp add: driver_step_def directions_callback_def Let_def split: list.splits option.splits)
qed

lemma driver_run_bins: "d_bins (ui (driver_run js evs s)) = d_bins (ui s)"
  by (induction evs rule: rev_induct) (simp_all add: driver_run_def driver_step_bins)




subsection \<open>Loading the stored bins\<close>




subsection \<open>The plan and the mutations of the client\<close>

lemma callback_keeps_planned:
  "d_routePlanned st \<Longrightarrow> d_routePlanned (fst (directions_callback js result status st))"
  by (simp add: directions_callback_def Let_def split: option.splits list.splits)

lemma planned_survives_step:
  assumes "plan_status (ui s) = Planned" "ev \<noteq> ClickClearRoute"
  shows "plan_status (ui (driver_step js ev s)) = Planned"
proof -
  from assms(1) have p: "d_routePlanned (ui s)" "\<not> d_isLoadingRoute (ui s)"
    by (simp_all add: plan_status_def split: if_splits)
  show ?thesis
  proof (cases ev)
    case ClickPlanRoute
    with p assms(1) show ?thesis by (simp add: driver_step_def click_planRoute_def)
  next
    case ClickClearRoute
    with assms(2) show ?thesis by simp
  next
    case MapLoaded
    with p show ?thesis by (simp add: driver_step_def onMapLoad_def plan_status_def)
  next
    case (Response result status)
    show ?thesis
    proof (cases "in_flight s")
      case Nil
      with Response assms(1) show ?thesis by (simp add: driver_step_def)
    next
      case (Cons r rest)
      with Response p show ?thesis
        by (simp add: driver_step_def plan_status_def callback_not_loading callback_keeps_planned)
    qed
  qed
qed

lemma clear_route_unplans:
  "plan_status (ui s) = Planned \<Longrightarrow> plan_status (ui (driver_step js ClickClearRoute s)) = Unplanned"
  by (simp add: driver_step_def click_clearRoute_def clearRoute_def plan_status_def split: if_splits)

lemma client_events_keep_driver:
  "w_driver (world_step js (ClientSubmit sub) w) = w_driver w"
  "w_driver (world_step js ClientClear w) = w_driver w"
  by (simp_all add: world_step_def client_submit_def client_clear_def split: prod.splits)

lemma planned_survives_world_step:
  assumes "plan_status (ui (w_driver w)) = Planned" "ev \<noteq> DriverEvent ClickClearRoute"
  shows "plan_status (ui (w_driver (world_step js ev w))) = Planned"
proof (cases ev)
  case (ClientSubmit sub)
  with assms(1) show ?thesis by (simp add: client_events_keep_driver)
next
  case ClientClear
  with assms(1) show ?thesis by (simp add: client_events_keep_driver)
next
  case (DriverEvent e)
  with assms(2) have "e \<noteq> ClickClearRoute" by simp
  from planned_survives_step [OF assms(1) this] DriverEvent show ?thesis
    by (simp add: world_step_def)
qed

lemma world_run_snoc: "world_run js (evs @ [ev]) w = world_step js ev (world_run js evs w)"
  by (simp add: world_run_def)

lemma planned_survives_world_run:
  assumes "plan_status (ui (w_driver w)) = Planned"
  shows "DriverEvent ClickClearRoute \<notin> set evs \<Longrightarrow>
     plan_status (ui (w_driver (world_run js evs w))) = Planned"
proof (induction evs rule: rev_induct)
  case Nil
  from assms show ?case by (simp add: world_run_def)
next
  case (snoc ev evs)
  then have "plan_status (ui (w_driver (world_run js evs w))) = Planned"
    and "ev \<noteq> DriverEvent ClickClearRoute" by auto
  then show ?case by (simp add: world_run_snoc planned_survives_world_step)
qed

lemma world_step_driver_bins:
  "d_bins (ui (w_driver (world_step js ev w))) = d_bins (ui (w_driver w))"
  by (cases ev) (simp_all add: client_events_keep_driver, simp add: world_step_def driver_step_bins)

lemma world_run_driver_bins:
  "d_bins (ui (w_driver (world_run js evs w))) = d_bins (ui (w_driver w))"
  by (induction evs rule: rev_induct) (simp_all add: world_run_def world_step_driver_bins)

text \<open>
  Claim C2, as stated, fails: with the driver portal in Planned, a submission or a clear
  in the client portal changes the bins of the client and leaves the plan Planned.
\<close>

theorem client_mutation_counterexample:
  "plan_status (ui (w_driver world0)) = Planned
   \<and> c_bins (w_client (client_submit demo_platform (sub_of ''40'' ''t1'') world0)) \<noteq> c_bins (w_client world0)
   \<and> plan_status (ui (w_driver (client_submit demo_platform (sub_of ''40'' ''t1'') world0))) = Planned
   \<and> plan_status (ui (w_driver (client_clear world0))) = Planned"
  by (simp add: world0_def client_submit_def client_clear_def submit_def handleSubmit_def
      handleClear_def sub_of_def store0_def client_init_def parseFloat_demo stringify_demo
      remaining_empty isNaN_def num_le_def num_gt_def setItem_def
      driver_planned_def driver_planning_def planRoute_def driver_ready_def driver_init_def
      directions_callback_def result_of_def plan_status_def Let_def split: prod.splits)

text \<open>
  Claim C2, amended. With the plan Planned and the driver portal staying mounted, the only
  event of the two portals that takes the plan to another status is the ``Clear Route''
  button of the driver portal, which gives Unplanned: a submission or a clear in the client portal, a click on ``Plan Route'', the
  map becoming ready and an answer of the directions service all leave it Planned, and so
  does every sequence of events without ``Clear Route''. No event changes the list of bins
  of the driver portal.
\<close>

theorem plan_left_only_by_clear_route:
  assumes "plan_status (ui (w_driver w)) = Planned"
  shows "(plan_status (ui (w_driver (world_step js ev w))) \<noteq> Planned \<longrightarrow>
            ev = DriverEvent ClickClearRoute)
    \<and> plan_status (ui (w_driver (world_step js (DriverEvent ClickClearRoute) w))) = Unplanned
    \<and> plan_status (ui (w_driver (world_step js (ClientSubmit sub) w))) = Planned
    \<and> plan_status (ui (w_driver (world_step js ClientClear w))) = Planned
    \<and> (DriverEvent ClickClearRoute \<notin> set evs \<longrightarrow>
          plan_status (ui (w_driver (world_run js evs w))) = Planned)
    \<and> d_bins (ui (w_driver (world_run js evs w))) = d_bins (ui (w_driver w))"
proof (intro conjI impI)
  assume "plan_status (ui (w_driver (world_step js ev w))) \<noteq> Planned"
  with planned_survives_world_step [OF assms, of ev js] show "ev = DriverEvent ClickClearRoute"
    by blast
next
  from clear_route_unplans [OF assms]
  show "plan_status (ui (w_driver (world_step js (DriverEvent ClickClearRoute) w))) = Unplanned"
    by (simp add: world_step_def)
next
  from assms show "plan_status (ui (w_driver (world_step js (ClientSubmit sub) w))) = Planned"
    by (simp add: client_events_keep_driver)
  from assms show "plan_status (ui (w_driver (world_step js ClientClear w))) = Planned"
    by (simp add: client_events_keep_driver)
next
  assume "DriverEvent ClickClearRoute \<notin> set evs"
  with assms show "plan_status (ui (w_driver (world_run js evs w))) = Planned"
    by (rule planned_survives_world_run)
next
  show "d_bins (ui (w_driver (world_run js evs w))) = d_bins (ui (w_driver w))"
    by (rule world_run_driver_bins)
qed

theorem plan_left_only_by_clear_route_witness:
  "plan_status (ui (w_driver world0)) = Planned
   \<and> DriverEvent ClickClearRoute \<notin> set [ClientSubmit (sub_of ''40'' ''t1''), ClientClear,
         DriverEvent ClickPlanRoute, DriverEvent MapLoaded]
   \<and> plan_status (ui (w_driver (world_run demo_platform
        [ClientSubmit (sub_of ''40'' ''t1''), ClientClear, DriverEvent ClickPlanRoute,
         DriverEvent MapLoaded] world0))) = Planned
   \<and> plan_status (ui (w_driver (world_step demo_platform (ClientSubmit (sub_of ''40'' ''t1'')) world0)))
        = Planned
   \<and> plan_status (ui (w_driver (world_step demo_platform ClientClear world0))) = Planned
   \<and> plan_status (ui (w_driver (world_step demo_platform (DriverEvent ClickClearRoute) world0)))
        = Unplanned"
proof -
  have 1: "plan_status (ui (w_driver world0)) = Planned"
    by (simp add: world0_def driver_planned_def driver_planning_def planRoute_def driver_ready_def
        driver_init_def directions_callback_def result_of_def plan_status_def)
  have 2: "DriverEvent ClickClearRoute \<notin> set [ClientSubmit (sub_of ''40'' ''t1''), ClientClear,
         DriverEvent ClickPlanRoute, DriverEvent MapLoaded]" by simp
  from plan_left_only_by_clear_route [OF 1, of demo_platform _ "sub_of ''40'' ''t1''"
      "[ClientSubmit (sub_of ''40'' ''t1''), ClientClear, DriverEvent ClickPlanRoute,
         DriverEvent MapLoaded]"] 1 2
  show ?thesis by blast
qed

end
